theory Spec2Isabelle
  imports Main "HOL-Library.Sublist"
begin

section \<open>Python strings and dictionaries\<close>

text \<open>
  Python \<open>str\<close> values are modelled as \<open>string\<close> (a list of characters). Every
  prefix the code tests (\<open>--- a/\<close>, \<open>+++ b/\<close>, \<open>+\<close>, \<open>-\<close>, a space, \<open>@@\<close>) and every
  slice it takes (\<open>line[6:]\<close>, \<open>line[1:]\<close>) is over ASCII characters, so that
  \<open>drop\<close> on the character list is the slice of the source.
\<close>

definition startswith :: "string \<Rightarrow> string \<Rightarrow> bool" where
  "startswith s p = prefix p s"

text \<open>\<open>s.split('\n')\<close>: always at least one piece; the empty string gives \<open>['']\<close>.\<close>

fun split_nl :: "string \<Rightarrow> string list" where
  "split_nl [] = [[]]"
| "split_nl (c # cs) =
     (if c = CHR 0x0A then [] # split_nl cs
      else (case split_nl cs of [] \<Rightarrow> [[c]] | l # ls \<Rightarrow> (c # l) # ls))"

text \<open>\<open>'\n'.join(xs)\<close>.\<close>

fun join_nl :: "string list \<Rightarrow> string" where
  "join_nl [] = []"
| "join_nl [x] = x"
| "join_nl (x # y # ys) = x @ CHR 0x0A # join_nl (y # ys)"

text \<open>
  Truthiness of a value that is \<open>None\<close> or a \<open>str\<close> (\<open>if current_file:\<close>,
  \<open>if not sha:\<close>): \<open>None\<close> and the empty string are false.
\<close>

fun truthy :: "string option \<Rightarrow> bool" where
  "truthy None = False"
| "truthy (Some s) = (s \<noteq> [])"

text \<open>
  A Python \<open>dict\<close> keeps its keys in insertion order, and \<open>d[k] = v\<close> on a key already
  present replaces the value where the key stands. The dictionary of the parser is
  iterated by \<open>apply_patch\<close>, so the order is part of the model: an association list
  with at most one pair per key.
\<close>

fun dict_set :: "('k \<times> 'v) list \<Rightarrow> 'k \<Rightarrow> 'v \<Rightarrow> ('k \<times> 'v) list" where
  "dict_set [] k v = [(k, v)]"
| "dict_set ((k', v') # d) k v =
     (if k' = k then (k', v) # d else (k', v') # dict_set d k v)"

section \<open>The diff parser: \<open>GitHubTool._parse_patch\<close>\<close>

text \<open>
  The local variables of the loop. \<open>files\<close> maps a path to \<open>None\<close> (Python's \<open>None\<close>,
  read as a deletion by \<open>apply_patch\<close>) or to \<open>Some content\<close>; \<open>current_file\<close> is \<open>None\<close>
  until the first \<open>--- a/\<close> line.
\<close>

record pstate =
  files :: "(string \<times> string option) list"
  current_file :: "string option"
  current_content :: "string list"
  in_hunk :: bool

definition init_pstate :: pstate where
  "init_pstate = \<lparr>files = [], current_file = None, current_content = [], in_hunk = False\<rparr>"

text \<open>One iteration of \<open>for line in patch_content.split('\n')\<close>, branch by branch.\<close>

definition parse_line :: "pstate \<Rightarrow> string \<Rightarrow> pstate" where
  "parse_line st line =
     (if startswith line ''--- a/'' then
        st\<lparr>current_file := Some (drop 6 line), current_content := [], in_hunk := False\<rparr>
      else if startswith line ''+++ b/'' then
        (case current_file st of
           None \<Rightarrow> st\<lparr>in_hunk := True\<rparr>
         | Some cf \<Rightarrow>
             if cf \<noteq> [] then st\<lparr>files := dict_set (files st) cf None, in_hunk := True\<rparr>
             else st\<lparr>in_hunk := True\<rparr>)
      else if in_hunk st \<and> truthy (current_file st) then
        (case current_file st of
           None \<Rightarrow> st
         | Some cf \<Rightarrow>
             if startswith line ''+'' \<and> \<not> startswith line ''+++'' then
               st\<lparr>current_content := current_content st @ [drop 1 line]\<rparr>
             else if startswith line '' '' \<or> startswith line ''-'' then
               (if startswith line '' '' then
                  st\<lparr>current_content := current_content st @ [drop 1 line]\<rparr>
                else st)
             else if startswith line ''@@'' then st
             else
               (if current_content st \<noteq> [] then
                  st\<lparr>files := dict_set (files st) cf (Some (join_nl (current_content st)))\<rparr>
                else st))
      else st)"

fun parse_lines :: "pstate \<Rightarrow> string list \<Rightarrow> pstate" where
  "parse_lines st [] = st"
| "parse_lines st (line # rest) = parse_lines (parse_line st line) rest"

definition parse_patch :: "string \<Rightarrow> (string \<times> string option) list" where
  "parse_patch patch_content = files (parse_lines init_pstate (split_nl patch_content))"

text \<open>
  \<open>patch_content\<close> is whatever the reasoning step's JSON holds under \<open>patch\<close>. On a
  \<open>str\<close> the parser runs; on any other value \<open>patch_content.split\<close> raises
  \<open>AttributeError\<close>. \<open>PyOther t ty\<close> is a value that is not a \<open>str\<close>, with its
  truthiness and the name of its type.
\<close>

datatype pyval = PyStr string | PyOther bool string

datatype 'a outcome = Raised string | Returned 'a

fun py_truthy :: "pyval \<Rightarrow> bool" where
  "py_truthy (PyStr s) = (s \<noteq> [])"
| "py_truthy (PyOther t ty) = t"

fun parse_patch_py :: "pyval \<Rightarrow> (string \<times> string option) list outcome" where
  "parse_patch_py (PyStr s) = Returned (parse_patch s)"
| "parse_patch_py (PyOther t ty) =
     Raised ([CHR 0x27] @ ty @ [CHR 0x27] @ '' object has no attribute '' @
             [CHR 0x27] @ ''split'' @ [CHR 0x27])"

text \<open>The lines of a hunk body that the parser recognises.\<close>

definition added_line :: "string \<Rightarrow> bool" where
  "added_line line = (startswith line ''+'' \<and> \<not> startswith line ''+++'')"

definition context_line :: "string \<Rightarrow> bool" where
  "context_line line = startswith line '' ''"

definition removed_line :: "string \<Rightarrow> bool" where
  "removed_line line = startswith line ''-''"

definition hunk_header :: "string \<Rightarrow> bool" where
  "hunk_header line = startswith line ''@@''"

definition old_file_header :: "string \<Rightarrow> bool" where
  "old_file_header line = startswith line ''--- a/''"

definition new_file_header :: "string \<Rightarrow> bool" where
  "new_file_header line = startswith line ''+++ b/''"

text \<open>
  A line that keeps the parser inside the hunk: added, context, removed (but not a
  \<open>--- a/\<close> header, which the first branch takes) or a hunk header.
\<close>

definition hunk_line :: "string \<Rightarrow> bool" where
  "hunk_line line =
     (\<not> old_file_header line \<and>
      (added_line line \<or> context_line line \<or> removed_line line \<or> hunk_header line))"

text \<open>
  Two parser states that differ at most in what \<open>files\<close> holds for paths other than \<open>p\<close>.
\<close>

definition agree_at :: "string \<Rightarrow> pstate \<Rightarrow> pstate \<Rightarrow> bool" where
  "agree_at p s t =
     (current_file s = current_file t \<and> current_content s = current_content t \<and>
      in_hunk s = in_hunk t \<and> map_of (files s) p = map_of (files t) p)"

text \<open>
  The content a hunk body stands for: its added and context lines, in order, without
  their first character.
\<close>

definition kept_lines :: "string list \<Rightarrow> string list" where
  "kept_lines body = map (drop 1) (filter (\<lambda>l. added_line l \<or> context_line l) body)"

section \<open>The webhook's eligibility check: \<open>should_process_issue\<close>\<close>

text \<open>
  The issue context built by \<open>extract_issue_context\<close>: \<open>assignee\<close> is the webhook's
  user object (a JSON object, here its fields) or \<open>None\<close>; \<open>state\<close> is the issue's state
  or \<open>None\<close>; \<open>labels\<close> are the label names.
\<close>

record issue_context =
  ic_assignee :: "(string \<times> string) list option"
  ic_state :: "string option"
  ic_labels :: "string list"

definition skip_labels :: "string list" where
  "skip_labels = [''needs-review'', ''complex'', ''breaking-change'', ''security'']"

text \<open>\<open>if issue_context.get('assignee')\<close>: a dictionary is true when it is not empty.\<close>

definition has_assignee :: "issue_context \<Rightarrow> bool" where
  "has_assignee ic = (case ic_assignee ic of None \<Rightarrow> False | Some obj \<Rightarrow> obj \<noteq> [])"

definition should_process_issue :: "issue_context \<Rightarrow> bool" where
  "should_process_issue ic =
     (if has_assignee ic then False
      else if ic_state ic = Some ''closed'' then False
      else if list_ex (\<lambda>label. label \<in> set (ic_labels ic)) skip_labels then False
      else ic_state ic = Some ''open'')"

section \<open>The HTTP layer: \<open>GitHubTool._make_request\<close>\<close>

text \<open>
  The remote is outside the program. A request is what \<open>requests.request\<close> is called
  with (the headers are the same for every call and are left out); the program's
  effect on the remote is the list of requests it has sent, in order. The remote's
  answer is a function of that list (its last element is the request being answered), so
  that an answer may depend on everything sent before.
\<close>

datatype http_method = GET | POST | PUT | DELETE

record request =
  rq_method :: http_method
  rq_url :: string
  rq_params :: "(string \<times> string) list"
  rq_json :: "(string \<times> string option) list option"

text \<open>
  The fields of a JSON response body that the code reads, each \<open>None\<close> when the body has
  no such field or holds null for it: \<open>object.sha\<close>; \<open>content\<close> (base64 text, in the
  answer to a read); \<open>sha\<close>; \<open>size\<close>; \<open>commit.sha\<close>; \<open>content.sha\<close> (in the answer to a
  write); \<open>number\<close>, \<open>html_url\<close>, \<open>url\<close>. The code reads \<open>default_branch\<close> with a default,
  which stands in for an absent key only: \<open>jf_default_branch\<close> is \<open>None\<close> when the key is
  absent, \<open>Some None\<close> when it holds null, \<open>Some (Some b)\<close> when it holds \<open>b\<close>.
\<close>

record json_fields =
  jf_default_branch :: "string option option"
  jf_object_sha :: "string option"
  jf_content :: "string option"
  jf_sha :: "string option"
  jf_size :: "nat option"
  jf_commit_sha :: "string option"
  jf_content_sha :: "string option"
  jf_number :: "nat option"
  jf_html_url :: "string option"
  jf_url :: "string option"

definition no_fields :: json_fields where
  "no_fields = \<lparr>jf_default_branch = None, jf_object_sha = None, jf_content = None,
     jf_sha = None, jf_size = None, jf_commit_sha = None, jf_content_sha = None,
     jf_number = None, jf_html_url = None, jf_url = None\<rparr>"

text \<open>
  \<open>response.json() if response.content else {}\<close> is a JSON object or a value of another
  type (the contents endpoint answers a directory path with an array), on which \<open>.get\<close>
  raises \<open>AttributeError\<close>; \<open>JNonObject ty\<close> carries the name of that type.
\<close>

datatype json_body = JObject json_fields | JNonObject string

text \<open>
  \<open>Response status_code text reset body\<close>: the status, the body as text, the
  \<open>X-RateLimit-Reset\<close> header if present, and the body as JSON.
  \<open>RequestException msg\<close>: \<open>requests\<close> raised (connection error, timeout, or a body
  that \<open>response.json()\<close> cannot decode).
\<close>

datatype http_response =
    Response nat string "string option" json_body
  | RequestException string

text \<open>
  The dictionaries the tool's methods return. Callers read them with \<open>.get\<close> only, so a
  key that is absent reads as \<open>None\<close>: one record with every key the methods set.
\<close>

record result =
  r_success :: bool
  r_error :: "string option"
  r_retry_after :: "string option"
  r_data :: "json_body option"
  r_status_code :: "nat option"
  r_branch_name :: "string option"
  r_sha :: "string option"
  r_content :: "string option"
  r_size :: "nat option"
  r_commit_sha :: "string option"
  r_file_sha :: "string option"
  r_pr_number :: "nat option"
  r_pr_url :: "string option"
  r_pr_api_url :: "string option"

definition empty_result :: result where
  "empty_result = \<lparr>r_success = False, r_error = None, r_retry_after = None, r_data = None,
     r_status_code = None, r_branch_name = None, r_sha = None, r_content = None,
     r_size = None, r_commit_sha = None, r_file_sha = None, r_pr_number = None,
     r_pr_url = None, r_pr_api_url = None\<rparr>"

text \<open>\<open>{'success': False, 'error': msg}\<close> and \<open>{'success': True}\<close>.\<close>

definition failure :: "string \<Rightarrow> result" where
  "failure msg = empty_result\<lparr>r_error := Some msg\<rparr>"

definition succeeded :: result where
  "succeeded = empty_result\<lparr>r_success := True\<rparr>"

text \<open>What the library gives the tool: the remote's answers and the base64 codec.
  \<open>b64decode_utf8 s\<close> is \<open>base64.b64decode(s).decode('utf-8')\<close>, which may raise;
  \<open>b64encode_utf8 s\<close> is \<open>base64.b64encode(s.encode('utf-8')).decode('utf-8')\<close>.\<close>

record env =
  respond :: "request list \<Rightarrow> http_response"
  b64decode_utf8 :: "string \<Rightarrow> string outcome"
  b64encode_utf8 :: "string \<Rightarrow> string"

text \<open>\<open>str(n)\<close> of a natural number, and \<open>str(x)\<close> of a value that may be \<open>None\<close>.\<close>

fun str_of_nat :: "nat \<Rightarrow> string" where
  "str_of_nat n =
     (if n < 10 then [char_of (48 + n)]
      else str_of_nat (n div 10) @ [char_of (48 + n mod 10)])"

declare str_of_nat.simps [simp del]

fun pystr :: "string option \<Rightarrow> string" where
  "pystr None = ''None''"
| "pystr (Some s) = s"

text \<open>
  \<open>text.lower()\<close>, on the ASCII letters. The only use is the test
  \<open>'rate limit' in response.text.lower()\<close>, and no character outside ASCII has a lower
  case that puts one of the letters of \<open>rate limit\<close> next to its neighbour.
\<close>

definition lower_char :: "char \<Rightarrow> char" where
  "lower_char c =
     (let n = of_char c :: nat in if 65 \<le> n \<and> n \<le> 90 then char_of (n + 32) else c)"

definition lower :: "string \<Rightarrow> string" where
  "lower s = map lower_char s"

definition api_base :: string where
  "api_base = ''https://api.github.com''"

definition rate_limited :: "http_response \<Rightarrow> bool" where
  "rate_limited resp =
     (case resp of
        Response code txt reset body \<Rightarrow> code = 403 \<and> sublist ''rate limit'' (lower txt)
      | RequestException e \<Rightarrow> False)"

text \<open>
  The dictionary \<open>_make_request\<close> returns for the provider's rate-limit response:
  the error text, and \<open>retry_after\<close> from the \<open>X-RateLimit-Reset\<close> header (\<open>0\<close> without it).
\<close>

definition rate_limit_result :: "http_response \<Rightarrow> result" where
  "rate_limit_result resp =
     empty_result\<lparr>r_error := Some ''GitHub API rate limit exceeded'',
                   r_retry_after := Some (case resp of
                       Response code txt reset body \<Rightarrow> (case reset of None \<Rightarrow> ''0'' | Some h \<Rightarrow> h)
                     | RequestException msg \<Rightarrow> ''0'')\<rparr>"

definition make_request ::
  "env \<Rightarrow> request list \<Rightarrow> http_method \<Rightarrow> string \<Rightarrow> (string \<times> string) list \<Rightarrow>
   (string \<times> string option) list option \<Rightarrow> result \<times> request list" where
  "make_request e log m url params js =
     (let log' = log @ [\<lparr>rq_method = m, rq_url = url, rq_params = params, rq_json = js\<rparr>] in
      case respond e log' of
        RequestException msg \<Rightarrow> (failure (''Request failed: '' @ msg), log')
      | Response code txt reset body \<Rightarrow>
          if code = 403 \<and> sublist ''rate limit'' (lower txt) then
            (empty_result\<lparr>r_error := Some ''GitHub API rate limit exceeded'',
                           r_retry_after := Some (case reset of None \<Rightarrow> ''0'' | Some h \<Rightarrow> h)\<rparr>,
             log')
          else if code \<ge> 400 then
            (failure (''GitHub API error: '' @ str_of_nat code @ '' - '' @ txt), log')
          else
            (empty_result\<lparr>r_success := True, r_data := Some body,
                           r_status_code := Some code\<rparr>, log'))"

text \<open>
  \<open>result['data'].get(...)\<close>: \<open>KeyError\<close> when the dictionary has no \<open>data\<close>,
  \<open>AttributeError\<close> when the body is not an object, else the field.
\<close>

definition data_get :: "result \<Rightarrow> (json_fields \<Rightarrow> 'a) \<Rightarrow> 'a outcome" where
  "data_get r field =
     (case r_data r of
        None \<Rightarrow> Raised ([CHR 0x27] @ ''data'' @ [CHR 0x27])
      | Some (JNonObject ty) \<Rightarrow>
          Raised ([CHR 0x27] @ ty @ [CHR 0x27] @ '' object has no attribute '' @
                  [CHR 0x27] @ ''get'' @ [CHR 0x27])
      | Some (JObject f) \<Rightarrow> Returned (field f))"

section \<open>Branches and files: the methods of \<open>GitHubTool\<close>\<close>

definition get_repository_info :: "env \<Rightarrow> request list \<Rightarrow> string \<Rightarrow> result \<times> request list" where
  "get_repository_info e log repo_name =
     make_request e log GET (api_base @ ''/repos/'' @ repo_name) [] None"

definition get_default_branch ::
  "env \<Rightarrow> request list \<Rightarrow> string \<Rightarrow> string option outcome \<times> request list" where
  "get_default_branch e log repo_name =
     (case get_repository_info e log repo_name of
        (res, log1) \<Rightarrow>
          if r_success res then
            (case data_get res jf_default_branch of
               Raised x \<Rightarrow> (Raised x, log1)
             | Returned None \<Rightarrow> (Returned (Some ''main''), log1)
             | Returned (Some b) \<Rightarrow> (Returned b, log1))
          else (Returned None, log1))"

definition get_branch_sha ::
  "env \<Rightarrow> request list \<Rightarrow> string \<Rightarrow> string \<Rightarrow> string option outcome \<times> request list" where
  "get_branch_sha e log repo_name branch =
     (case make_request e log GET
             (api_base @ ''/repos/'' @ repo_name @ ''/git/refs/heads/'' @ branch) [] None of
        (res, log1) \<Rightarrow>
          if r_success res then (data_get res jf_object_sha, log1)
          else (Returned None, log1))"

text \<open>
  \<open>create_branch\<close> from the point where \<open>base_branch\<close> is known (the comment
  \<open># Get base branch SHA\<close> on), inside the \<open>try\<close>.
\<close>

definition create_branch_from ::
  "env \<Rightarrow> request list \<Rightarrow> string \<Rightarrow> string \<Rightarrow> string \<Rightarrow> result outcome \<times> request list" where
  "create_branch_from e log repo_name branch_name base_branch =
     (case get_branch_sha e log repo_name base_branch of
        (Raised x, log1) \<Rightarrow> (Raised x, log1)
      | (Returned base_sha, log1) \<Rightarrow>
          if \<not> truthy base_sha then
            (Returned (failure (''Could not get SHA for base branch '' @ base_branch)), log1)
          else
            (case make_request e log1 POST (api_base @ ''/repos/'' @ repo_name @ ''/git/refs'') []
                    (Some [(''ref'', Some (''refs/heads/'' @ branch_name)), (''sha'', base_sha)]) of
               (res, log2) \<Rightarrow>
                 if r_success res then
                   (case data_get res jf_object_sha of
                      Raised x \<Rightarrow> (Raised x, log2)
                    | Returned s \<Rightarrow>
                        (Returned (succeeded\<lparr>r_branch_name := Some branch_name, r_sha := s\<rparr>),
                         log2))
                 else (Returned res, log2)))"

text \<open>The body of the \<open>try\<close> of \<open>create_branch\<close>.\<close>

definition create_branch_try ::
  "env \<Rightarrow> request list \<Rightarrow> string \<Rightarrow> string \<Rightarrow> string option \<Rightarrow>
   result outcome \<times> request list" where
  "create_branch_try e log repo_name branch_name base_branch =
     (if \<not> truthy base_branch then
        (case get_default_branch e log repo_name of
           (Raised x, log1) \<Rightarrow> (Raised x, log1)
         | (Returned dflt, log1) \<Rightarrow>
             if \<not> truthy dflt then
               (Returned (failure ''Could not determine default branch''), log1)
             else create_branch_from e log1 repo_name branch_name (pystr dflt))
      else create_branch_from e log repo_name branch_name (pystr base_branch))"

definition create_branch ::
  "env \<Rightarrow> request list \<Rightarrow> string \<Rightarrow> string \<Rightarrow> string option \<Rightarrow> result \<times> request list" where
  "create_branch e log repo_name branch_name base_branch =
     (case create_branch_try e log repo_name branch_name base_branch of
        (Raised x, log1) \<Rightarrow> (failure (''Branch creation failed: '' @ x), log1)
      | (Returned res, log1) \<Rightarrow> (res, log1))"

text \<open>\<open>get_file_content\<close> has no \<open>try\<close> of its own but around the decoding.\<close>

definition get_file_content ::
  "env \<Rightarrow> request list \<Rightarrow> string \<Rightarrow> string \<Rightarrow> string option \<Rightarrow>
   result outcome \<times> request list" where
  "get_file_content e log repo_name file_path branch =
     (case (if \<not> truthy branch then get_default_branch e log repo_name
            else (Returned branch, log)) of
        (Raised x, log1) \<Rightarrow> (Raised x, log1)
      | (Returned branch', log1) \<Rightarrow>
          (case make_request e log1 GET
                  (api_base @ ''/repos/'' @ repo_name @ ''/contents/'' @ file_path)
                  (if truthy branch' then [(''ref'', pystr branch')] else []) None of
             (res, log2) \<Rightarrow>
               if r_success res then
                 (case data_get res jf_content of
                    Raised x \<Rightarrow> (Raised x, log2)
                  | Returned c \<Rightarrow>
                      if truthy c then
                        (case b64decode_utf8 e (pystr c) of
                           Raised x \<Rightarrow>
                             (Returned (failure (''Failed to decode file content: '' @ x)), log2)
                         | Returned decoded \<Rightarrow>
                             (case (data_get res jf_sha, data_get res jf_size) of
                                (Returned s, Returned n) \<Rightarrow>
                                  (Returned (succeeded\<lparr>r_content := Some decoded, r_sha := s,
                                                         r_size := n\<rparr>), log2)
                              | (Raised x, _) \<Rightarrow>
                                  (Returned (failure (''Failed to decode file content: '' @ x)), log2)
                              | (_, Raised x) \<Rightarrow>
                                  (Returned (failure (''Failed to decode file content: '' @ x)), log2)))
                      else (Returned res, log2))
               else (Returned res, log2)))"

text \<open>The request that writes a file, and what \<open>update_file\<close> and \<open>create_file\<close> return
  for its answer (inside their \<open>try\<close>).\<close>

definition written ::
  "result \<times> request list \<Rightarrow> result outcome \<times> request list" where
  "written rl =
     (case rl of
        (res, log1) \<Rightarrow>
          if r_success res then
            (case (data_get res jf_commit_sha, data_get res jf_content_sha) of
               (Returned c, Returned f) \<Rightarrow>
                 (Returned (succeeded\<lparr>r_commit_sha := c, r_file_sha := f\<rparr>), log1)
             | (Raised x, _) \<Rightarrow> (Raised x, log1)
             | (_, Raised x) \<Rightarrow> (Raised x, log1))
          else (Returned res, log1))"

definition put_with_sha ::
  "env \<Rightarrow> request list \<Rightarrow> string \<Rightarrow> string \<Rightarrow> string \<Rightarrow> string \<Rightarrow> string \<Rightarrow>
   string option \<Rightarrow> result outcome \<times> request list" where
  "put_with_sha e log repo_name file_path content commit_message branch sha =
     written (make_request e log PUT
                (api_base @ ''/repos/'' @ repo_name @ ''/contents/'' @ file_path) []
                (Some [(''message'', Some commit_message),
                       (''content'', Some (b64encode_utf8 e content)),
                       (''sha'', sha),
                       (''branch'', Some branch)]))"

text \<open>The body of the \<open>try\<close> of \<open>update_file\<close>.\<close>

definition update_file_try ::
  "env \<Rightarrow> request list \<Rightarrow> string \<Rightarrow> string \<Rightarrow> string \<Rightarrow> string \<Rightarrow> string \<Rightarrow>
   string option \<Rightarrow> result outcome \<times> request list" where
  "update_file_try e log repo_name file_path content commit_message branch sha =
     (if \<not> truthy sha then
        (case get_file_content e log repo_name file_path (Some branch) of
           (Raised x, log1) \<Rightarrow> (Raised x, log1)
         | (Returned file_info, log1) \<Rightarrow>
             if \<not> r_success file_info then
               (Returned (failure (''Could not get file SHA: '' @ pystr (r_error file_info))),
                log1)
             else put_with_sha e log1 repo_name file_path content commit_message branch
                    (r_sha file_info))
      else put_with_sha e log repo_name file_path content commit_message branch sha)"

definition update_file ::
  "env \<Rightarrow> request list \<Rightarrow> string \<Rightarrow> string \<Rightarrow> string \<Rightarrow> string \<Rightarrow> string \<Rightarrow>
   string option \<Rightarrow> result \<times> request list" where
  "update_file e log repo_name file_path content commit_message branch sha =
     (case update_file_try e log repo_name file_path content commit_message branch sha of
        (Raised x, log1) \<Rightarrow> (failure (''File update failed: '' @ x), log1)
      | (Returned res, log1) \<Rightarrow> (res, log1))"

definition create_file ::
  "env \<Rightarrow> request list \<Rightarrow> string \<Rightarrow> string \<Rightarrow> string \<Rightarrow> string \<Rightarrow> string \<Rightarrow>
   result \<times> request list" where
  "create_file e log repo_name file_path content commit_message branch =
     (case written (make_request e log PUT
                      (api_base @ ''/repos/'' @ repo_name @ ''/contents/'' @ file_path) []
                      (Some [(''message'', Some commit_message),
                             (''content'', Some (b64encode_utf8 e content)),
                             (''branch'', Some branch)])) of
        (Raised x, log1) \<Rightarrow> (failure (''File creation failed: '' @ x), log1)
      | (Returned res, log1) \<Rightarrow> (res, log1))"

text \<open>The body of the \<open>try\<close> of \<open>_delete_file\<close>.\<close>

definition delete_file_try ::
  "env \<Rightarrow> request list \<Rightarrow> string \<Rightarrow> string \<Rightarrow> string \<Rightarrow> string \<Rightarrow>
   result outcome \<times> request list" where
  "delete_file_try e log repo_name file_path commit_message branch =
     (case get_file_content e log repo_name file_path (Some branch) of
        (Raised x, log1) \<Rightarrow> (Raised x, log1)
      | (Returned file_info, log1) \<Rightarrow>
          if \<not> r_success file_info then
            (Returned (failure (''Could not get file SHA for deletion: '' @
                                pystr (r_error file_info))), log1)
          else
            (case make_request e log1 DELETE
                    (api_base @ ''/repos/'' @ repo_name @ ''/contents/'' @ file_path) []
                    (Some [(''message'', Some commit_message),
                           (''sha'', r_sha file_info),
                           (''branch'', Some branch)]) of
               (res, log2) \<Rightarrow>
                 if r_success res then
                   (case data_get res jf_commit_sha of
                      Raised x \<Rightarrow> (Raised x, log2)
                    | Returned c \<Rightarrow> (Returned (succeeded\<lparr>r_commit_sha := c\<rparr>), log2))
                 else (Returned res, log2)))"

definition delete_file ::
  "env \<Rightarrow> request list \<Rightarrow> string \<Rightarrow> string \<Rightarrow> string \<Rightarrow> string \<Rightarrow> result \<times> request list" where
  "delete_file e log repo_name file_path commit_message branch =
     (case delete_file_try e log repo_name file_path commit_message branch of
        (Raised x, log1) \<Rightarrow> (failure (''File deletion failed: '' @ x), log1)
      | (Returned res, log1) \<Rightarrow> (res, log1))"

text \<open>The body of the \<open>try\<close> of \<open>create_pull_request\<close>.\<close>

definition create_pull_request_try ::
  "env \<Rightarrow> request list \<Rightarrow> string \<Rightarrow> string \<Rightarrow> string \<Rightarrow> string \<Rightarrow> string option \<Rightarrow>
   result outcome \<times> request list" where
  "create_pull_request_try e log repo_name head_branch title body base_branch =
     (case (if \<not> truthy base_branch then get_default_branch e log repo_name
            else (Returned base_branch, log)) of
        (Raised x, log1) \<Rightarrow> (Raised x, log1)
      | (Returned base, log1) \<Rightarrow>
          (case make_request e log1 POST (api_base @ ''/repos/'' @ repo_name @ ''/pulls'') []
                  (Some [(''title'', Some title), (''body'', Some body),
                         (''head'', Some head_branch), (''base'', base)]) of
             (res, log2) \<Rightarrow>
               if r_success res then
                 (case (data_get res jf_number, data_get res jf_html_url, data_get res jf_url) of
                    (Returned n, Returned h, Returned u) \<Rightarrow>
                      (Returned (succeeded\<lparr>r_pr_number := n, r_pr_url := h, r_pr_api_url := u\<rparr>),
                       log2)
                  | (Raised x, _) \<Rightarrow> (Raised x, log2)
                  | (_, Raised x, _) \<Rightarrow> (Raised x, log2)
                  | (_, _, Raised x) \<Rightarrow> (Raised x, log2))
               else (Returned res, log2)))"

definition create_pull_request ::
  "env \<Rightarrow> request list \<Rightarrow> string \<Rightarrow> string \<Rightarrow> string \<Rightarrow> string \<Rightarrow> string option \<Rightarrow>
   result \<times> request list" where
  "create_pull_request e log repo_name head_branch title body base_branch =
     (case create_pull_request_try e log repo_name head_branch title body base_branch of
        (Raised x, log1) \<Rightarrow> (failure (''PR creation failed: '' @ x), log1)
      | (Returned res, log1) \<Rightarrow> (res, log1))"

section \<open>Applying a patch: \<open>GitHubTool.apply_patch\<close>\<close>

text \<open>One entry of \<open>results\<close>.\<close>

record file_result =
  fr_file_path :: string
  fr_success :: bool
  fr_error :: "string option"

text \<open>
  What one iteration of \<open>for file_path, file_content in patch_files.items()\<close> assigns to
  \<open>result\<close>. The call of \<open>get_file_content\<close> in the loop stands in no \<open>try\<close> but that of
  \<open>apply_patch\<close>, so it can end the loop.
\<close>

definition apply_file ::
  "env \<Rightarrow> request list \<Rightarrow> string \<Rightarrow> string \<Rightarrow> string \<Rightarrow> string \<times> string option \<Rightarrow>
   result outcome \<times> request list" where
  "apply_file e log repo_name branch commit_message entry =
     (case entry of
        (file_path, None) \<Rightarrow>
          (case delete_file e log repo_name file_path commit_message branch of
             (res, log1) \<Rightarrow> (Returned res, log1))
      | (file_path, Some file_content) \<Rightarrow>
          (case get_file_content e log repo_name file_path (Some branch) of
             (Raised x, log1) \<Rightarrow> (Raised x, log1)
           | (Returned file_info, log1) \<Rightarrow>
               if r_success file_info then
                 (case update_file e log1 repo_name file_path file_content commit_message branch
                         (r_sha file_info) of
                    (res, log2) \<Rightarrow> (Returned res, log2))
               else
                 (case create_file e log1 repo_name file_path file_content commit_message branch of
                    (res, log2) \<Rightarrow> (Returned res, log2))))"

fun apply_files ::
  "env \<Rightarrow> request list \<Rightarrow> string \<Rightarrow> string \<Rightarrow> string \<Rightarrow> (string \<times> string option) list \<Rightarrow>
   file_result list outcome \<times> request list" where
  "apply_files e log repo_name branch commit_message [] = (Returned [], log)"
| "apply_files e log repo_name branch commit_message (entry # rest) =
     (case apply_file e log repo_name branch commit_message entry of
        (Raised x, log1) \<Rightarrow> (Raised x, log1)
      | (Returned res, log1) \<Rightarrow>
          (case apply_files e log1 repo_name branch commit_message rest of
             (Raised x, log2) \<Rightarrow> (Raised x, log2)
           | (Returned results, log2) \<Rightarrow>
               (Returned (\<lparr>fr_file_path = fst entry, fr_success = r_success res,
                            fr_error = r_error res\<rparr> # results), log2)))"

text \<open>The dictionary \<open>apply_patch\<close> returns; the counts and \<open>results\<close> are absent from
  the two failure dictionaries.\<close>

record patch_result =
  p_success :: bool
  p_error :: "string option"
  p_files_processed :: "nat option"
  p_files_successful :: "nat option"
  p_results :: "file_result list option"

definition patch_failure :: "string \<Rightarrow> patch_result" where
  "patch_failure msg = \<lparr>p_success = False, p_error = Some msg, p_files_processed = None,
     p_files_successful = None, p_results = None\<rparr>"

definition apply_patch ::
  "env \<Rightarrow> request list \<Rightarrow> string \<Rightarrow> string \<Rightarrow> pyval \<Rightarrow> string \<Rightarrow>
   patch_result \<times> request list" where
  "apply_patch e log repo_name branch patch_content commit_message =
     (case parse_patch_py patch_content of
        Raised x \<Rightarrow> (patch_failure (''Patch application failed: '' @ x), log)
      | Returned patch_files \<Rightarrow>
          if patch_files = [] then
            (patch_failure ''No valid file changes found in patch'', log)
          else
            (case apply_files e log repo_name branch commit_message patch_files of
               (Raised x, log1) \<Rightarrow> (patch_failure (''Patch application failed: '' @ x), log1)
             | (Returned results, log1) \<Rightarrow>
                 (let success_count = length (filter fr_success results);
                      total_count = length results
                  in (\<lparr>p_success = (success_count = total_count), p_error = None,
                        p_files_processed = Some total_count,
                        p_files_successful = Some success_count,
                        p_results = Some results\<rparr>, log1))))"

section \<open>The coordinator: \<open>execute_agent_actions\<close>\<close>

text \<open>
  What the coordinator reads of its arguments. \<open>ar_patch\<close> is
  \<open>agent_response.get("patch")\<close>, \<open>None\<close> when the key is absent or null; \<open>oi_number\<close>,
  \<open>oi_title\<close> and \<open>rc_default_branch\<close> are \<open>None\<close> when the key is absent, and the code's
  default is used; \<open>rc_full_name\<close> is \<open>repo_context.get('full_name')\<close>.
\<close>

record agent_response =
  ar_can_auto_fix :: bool
  ar_patch :: "pyval option"

record orch_issue =
  oi_number :: "nat option"
  oi_title :: "string option"

record repo_context =
  rc_full_name :: "string option"
  rc_default_branch :: "string option"

text \<open>What the build runner and the artifact store answer.\<close>

record step_result =
  s_success :: bool
  s_error :: "string option"
  s_build_id :: "string option"

text \<open>
  What lies outside the patch pipeline, taken as given:
  \<open>oe_tools_error\<close>, the message of the exception raised while the tools are imported
  and constructed, if any (\<open>GitHubTool()\<close> raises without a token, and the module
  \<open>tools.s3_tool\<close> is not among the sources);
  \<open>oe_now\<close>, \<open>int(datetime.now().timestamp())\<close>;
  \<open>oe_test_result\<close>, what \<open>run_tests\<close> returns, \<open>None\<close> when \<open>CODEBUILD_PROJECT\<close> is not set;
  \<open>oe_pr_body\<close>, the formatted body of the pull request, or the exception the
  formatting raises;
  \<open>oe_artifact\<close>, the artifact's address and what \<open>store_artifact\<close> returns, \<open>None\<close> when
  \<open>S3_BUCKET\<close> is not set.
\<close>

record orch_env =
  oe_tools_error :: "string option"
  oe_now :: nat
  oe_test_result :: "step_result option"
  oe_pr_body :: "string outcome"
  oe_artifact :: "(string \<times> step_result) option"

record exec_results =
  x_success :: bool
  x_actions_taken :: "string list"
  x_errors :: "string list"
  x_artifacts :: "string list"
  x_test_build_id :: "string option"
  x_pr_url :: "string option"

definition initial_results :: exec_results where
  "initial_results = \<lparr>x_success = False, x_actions_taken = [], x_errors = [],
     x_artifacts = [], x_test_build_id = None, x_pr_url = None\<rparr>"

definition autofix_branch_name :: "orch_env \<Rightarrow> orch_issue \<Rightarrow> string" where
  "autofix_branch_name oe ic =
     ''autofix-'' @ (case oi_number ic of None \<Rightarrow> ''unknown'' | Some n \<Rightarrow> str_of_nat n) @
     ''-'' @ str_of_nat (oe_now oe)"

definition issue_title :: "orch_issue \<Rightarrow> string" where
  "issue_title ic = (case oi_title ic of None \<Rightarrow> ''Issue resolution'' | Some t \<Rightarrow> t)"

definition base_of :: "repo_context \<Rightarrow> string option" where
  "base_of rc = (case rc_default_branch rc of None \<Rightarrow> Some ''main'' | Some b \<Rightarrow> Some b)"

text \<open>
  From the comment \<open># Run tests\<close> to the end of the \<open>try\<close>, with the \<open>except\<close> clause for
  the exception the formatting of the body can raise.
\<close>

definition finish_actions ::
  "env \<Rightarrow> orch_env \<Rightarrow> request list \<Rightarrow> orch_issue \<Rightarrow> repo_context \<Rightarrow> string \<Rightarrow>
   exec_results \<Rightarrow> exec_results \<times> request list" where
  "finish_actions e oe log ic rc branch_name results =
     (let tested =
            (case oe_test_result oe of
               None \<Rightarrow> results
             | Some t \<Rightarrow>
                 if s_success t then
                   results\<lparr>x_actions_taken := x_actions_taken results @ [''Triggered automated tests''],
                           x_test_build_id := s_build_id t\<rparr>
                 else
                   results\<lparr>x_errors := x_errors results @
                                          [''Failed to run tests: '' @ pystr (s_error t)]\<rparr>)
      in case oe_pr_body oe of
           Raised x \<Rightarrow> (tested\<lparr>x_errors := x_errors tested @ [''Execution error: '' @ x]\<rparr>, log)
         | Returned body \<Rightarrow>
             (case create_pull_request e log (pystr (rc_full_name rc)) branch_name
                     (''[AutoFix] '' @ issue_title ic) body (base_of rc) of
                (pr_result, log1) \<Rightarrow>
                  (let opened =
                         (if r_success pr_result then
                            tested\<lparr>x_actions_taken := x_actions_taken tested @ [''Created pull request''],
                                   x_pr_url := r_pr_url pr_result, x_success := True\<rparr>
                          else
                            tested\<lparr>x_errors := x_errors tested @
                                                  [''Failed to create PR: '' @ pystr (r_error pr_result)]\<rparr>)
                   in (case oe_artifact oe of
                         None \<Rightarrow> opened
                       | Some (uri, stored) \<Rightarrow>
                           if s_success stored then
                             opened\<lparr>x_artifacts := x_artifacts opened @ [uri]\<rparr>
                           else
                             opened\<lparr>x_errors := x_errors opened @
                                                   [''Failed to store artifact: '' @ pystr (s_error stored)]\<rparr>,
                       log1))))"

definition execute_agent_actions ::
  "env \<Rightarrow> orch_env \<Rightarrow> request list \<Rightarrow> agent_response \<Rightarrow> orch_issue \<Rightarrow> repo_context \<Rightarrow>
   exec_results \<times> request list" where
  "execute_agent_actions e oe log ar ic rc =
     (if \<not> ar_can_auto_fix ar then (initial_results, log)
      else
        (case oe_tools_error oe of
           Some x \<Rightarrow> (initial_results\<lparr>x_errors := [''Execution error: '' @ x]\<rparr>, log)
         | None \<Rightarrow>
             (case create_branch e log (pystr (rc_full_name rc)) (autofix_branch_name oe ic)
                     (base_of rc) of
                (branch_result, log1) \<Rightarrow>
                  if \<not> r_success branch_result then
                    (initial_results\<lparr>x_errors :=
                        [''Failed to create branch: '' @ pystr (r_error branch_result)]\<rparr>, log1)
                  else
                    (let created = initial_results\<lparr>x_actions_taken :=
                                     [''Created branch: '' @ autofix_branch_name oe ic]\<rparr>
                     in case ar_patch ar of
                          None \<Rightarrow> finish_actions e oe log1 ic rc (autofix_branch_name oe ic) created
                        | Some patch \<Rightarrow>
                            if \<not> py_truthy patch then
                              finish_actions e oe log1 ic rc (autofix_branch_name oe ic) created
                            else
                              (case apply_patch e log1 (pystr (rc_full_name rc))
                                      (autofix_branch_name oe ic) patch
                                      (''AutoFix: '' @ issue_title ic) of
                                 (patch_result, log2) \<Rightarrow>
                                   if p_success patch_result then
                                     finish_actions e oe log2 ic rc (autofix_branch_name oe ic)
                                       (created\<lparr>x_actions_taken :=
                                          x_actions_taken created @ [''Applied code patch'']\<rparr>)
                                   else
                                     (created\<lparr>x_errors :=
                                        [''Failed to apply patch: '' @
                                         pystr (p_error patch_result)]\<rparr>, log2))))))"

text \<open>The kinds of request the claims speak of.\<close>

definition is_pull_request :: "request \<Rightarrow> bool" where
  "is_pull_request r = (rq_method r = POST \<and> suffix ''/pulls'' (rq_url r))"

definition is_file_write :: "request \<Rightarrow> bool" where
  "is_file_write r = (rq_method r = PUT \<or> rq_method r = DELETE)"

definition is_read :: "request \<Rightarrow> bool" where
  "is_read r = (rq_method r = GET)"

section \<open>Remotes and inputs of the examples\<close>

text \<open>In every example the base64 codec is the identity: what a request carries as
  \<open>content\<close> is shown as the text it encodes.\<close>

text \<open>A remote that answers every request with the provider's rate-limit response.\<close>

definition rl_env :: env where
  "rl_env =
     \<lparr>respond = (\<lambda>log. Response 403 ''API rate limit exceeded for installation''
                          (Some ''1700000000'') (JObject no_fields)),
      b64decode_utf8 = Returned, b64encode_utf8 = id\<rparr>"

text \<open>A remote on which no file exists: every read is answered 404, every write 201.\<close>

definition missing_env :: env where
  "missing_env =
     \<lparr>respond = (\<lambda>log. case rq_method (last log) of
                          GET \<Rightarrow> Response 404 ''Not Found'' None (JObject no_fields)
                        | _ \<Rightarrow> Response 201 [] None (JObject no_fields)),
      b64decode_utf8 = Returned, b64encode_utf8 = id\<rparr>"

text \<open>
  A remote on which every file exists and is empty: a read is answered 200 with an
  empty \<open>content\<close> and the file's \<open>sha\<close>, as the provider does for an empty file.
\<close>

definition empty_file_env :: env where
  "empty_file_env =
     \<lparr>respond = (\<lambda>log. case rq_method (last log) of
                          GET \<Rightarrow> Response 200 ''{...}'' None
                                   (JObject (no_fields\<lparr>jf_content := Some [],
                                                        jf_sha := Some ''e69de29'',
                                                        jf_size := Some 0\<rparr>))
                        | _ \<Rightarrow> Response 200 [] None (JObject no_fields)),
      b64decode_utf8 = Returned, b64encode_utf8 = id\<rparr>"

text \<open>
  A remote on which the base branch \<open>main\<close> exists and no file does, which accepts the
  new branch and every write but that of \<open>b.txt\<close>, answered 409.
\<close>

definition conflict_env :: env where
  "conflict_env =
     \<lparr>respond = (\<lambda>log. case rq_method (last log) of
                          GET \<Rightarrow>
                            if suffix ''/git/refs/heads/main'' (rq_url (last log)) then
                              Response 200 ''{...}'' None
                                (JObject (no_fields\<lparr>jf_object_sha := Some ''abc123''\<rparr>))
                            else Response 404 ''Not Found'' None (JObject no_fields)
                        | POST \<Rightarrow>
                            Response 201 ''{...}'' None
                              (JObject (no_fields\<lparr>jf_object_sha := Some ''abc123''\<rparr>))
                        | PUT \<Rightarrow>
                            if suffix ''/b.txt'' (rq_url (last log)) then
                              Response 409 ''Conflict'' None (JObject no_fields)
                            else Response 201 ''{...}'' None (JObject no_fields)
                        | DELETE \<Rightarrow> Response 200 ''{...}'' None (JObject no_fields)),
      b64decode_utf8 = Returned, b64encode_utf8 = id\<rparr>"

text \<open>A request of the reasoning step with a patch of three new files.\<close>

definition ex_patch :: string where
  "ex_patch = join_nl
     [''diff --git a/a.txt b/a.txt'', ''--- a/a.txt'', ''+++ b/a.txt'', ''@@ -0,0 +1 @@'', ''+one'',
      ''diff --git a/b.txt b/b.txt'', ''--- a/b.txt'', ''+++ b/b.txt'', ''@@ -0,0 +1 @@'', ''+two'',
      ''diff --git a/c.txt b/c.txt'', ''--- a/c.txt'', ''+++ b/c.txt'', ''@@ -0,0 +1 @@'', ''+three'',
      []]"

definition ex_response :: agent_response where
  "ex_response = \<lparr>ar_can_auto_fix = True, ar_patch = Some (PyStr ex_patch)\<rparr>"

definition ex_issue :: orch_issue where
  "ex_issue = \<lparr>oi_number = Some 7, oi_title = Some ''Fix typo''\<rparr>"

definition ex_repo :: repo_context where
  "ex_repo = \<lparr>rc_full_name = Some ''octo/repo'', rc_default_branch = Some ''main''\<rparr>"

definition ex_orch_env :: orch_env where
  "ex_orch_env = \<lparr>oe_tools_error = None, oe_now = 1700, oe_test_result = None,
     oe_pr_body = Returned ''body'', oe_artifact = None\<rparr>"

text \<open>What that request sends to the remote above, and what the three files come to.\<close>

definition ex_branch_log :: "request list" where
  "ex_branch_log =
     [\<lparr>rq_method = GET,
       rq_url = ''https://api.github.com/repos/octo/repo/git/refs/heads/main'',
       rq_params = [], rq_json = None\<rparr>,
      \<lparr>rq_method = POST,
       rq_url = ''https://api.github.com/repos/octo/repo/git/refs'',
       rq_params = [],
       rq_json = Some [(''ref'', Some ''refs/heads/autofix-7-1700''), (''sha'', Some ''abc123'')]\<rparr>]"

definition ex_file_log :: "request list" where
  "ex_file_log =
     [\<lparr>rq_method = GET,
       rq_url = ''https://api.github.com/repos/octo/repo/contents/a.txt'',
       rq_params = [(''ref'', ''autofix-7-1700'')], rq_json = None\<rparr>,
      \<lparr>rq_method = PUT,
       rq_url = ''https://api.github.com/repos/octo/repo/contents/a.txt'',
       rq_params = [],
       rq_json = Some [(''message'', Some ''AutoFix: Fix typo''), (''content'', Some ''one''),
                       (''branch'', Some ''autofix-7-1700'')]\<rparr>,
      \<lparr>rq_method = GET,
       rq_url = ''https://api.github.com/repos/octo/repo/contents/b.txt'',
       rq_params = [(''ref'', ''autofix-7-1700'')], rq_json = None\<rparr>,
      \<lparr>rq_method = PUT,
       rq_url = ''https://api.github.com/repos/octo/repo/contents/b.txt'',
       rq_params = [],
       rq_json = Some [(''message'', Some ''AutoFix: Fix typo''), (''content'', Some ''two''),
                       (''branch'', Some ''autofix-7-1700'')]\<rparr>,
      \<lparr>rq_method = GET,
       rq_url = ''https://api.github.com/repos/octo/repo/contents/c.txt'',
       rq_params = [(''ref'', ''autofix-7-1700'')], rq_json = None\<rparr>,
      \<lparr>rq_method = PUT,
       rq_url = ''https://api.github.com/repos/octo/repo/contents/c.txt'',
       rq_params = [],
       rq_json = Some [(''message'', Some ''AutoFix: Fix typo''), (''content'', Some ''three''),
                       (''branch'', Some ''autofix-7-1700'')]\<rparr>]"

definition ex_file_results :: "file_result list" where
  "ex_file_results =
     [\<lparr>fr_file_path = ''a.txt'', fr_success = True, fr_error = None\<rparr>,
      \<lparr>fr_file_path = ''b.txt'', fr_success = False,
       fr_error = Some ''GitHub API error: 409 - Conflict''\<rparr>,
      \<lparr>fr_file_path = ''c.txt'', fr_success = True, fr_error = None\<rparr>]"

text \<open>A diff whose only section ends with an added line, at the end of the input.\<close>

definition ex_open_patch :: string where
  "ex_open_patch =
     join_nl [''--- a/f.txt'', ''+++ b/f.txt'', ''@@ -1 +1,2 @@'', '' keep'', ''+added'']"

text \<open>
  A remote on which \<open>docs\<close> is a directory and no file exists: the read of \<open>docs\<close> is
  answered 200 with a JSON array, every other read 404, every write 201.
\<close>

definition dir_env :: env where
  "dir_env =
     \<lparr>respond = (\<lambda>log. case rq_method (last log) of
                          GET \<Rightarrow>
                            if suffix ''/contents/docs'' (rq_url (last log)) then
                              Response 200 ''[...]'' None (JNonObject ''list'')
                            else Response 404 ''Not Found'' None (JObject no_fields)
                        | _ \<Rightarrow> Response 201 ''{...}'' None (JObject no_fields)),
      b64decode_utf8 = Returned, b64encode_utf8 = id\<rparr>"

text \<open>A patch of three files whose second path is that directory.\<close>

definition ex_dir_patch :: string where
  "ex_dir_patch = join_nl
     [''diff --git a/a.txt b/a.txt'', ''--- a/a.txt'', ''+++ b/a.txt'', ''@@ -0,0 +1 @@'', ''+one'',
      ''diff --git a/docs b/docs'', ''--- a/docs'', ''+++ b/docs'', ''@@ -0,0 +1 @@'', ''+two'',
      ''diff --git a/c.txt b/c.txt'', ''--- a/c.txt'', ''+++ b/c.txt'', ''@@ -0,0 +1 @@'', ''+three'',
      []]"

text \<open>
  A diff whose only section holds an empty line between two added lines and ends with
  the second of them, at the end of the input.
\<close>

definition ex_blank_patch :: string where
  "ex_blank_patch =
     join_nl [''--- a/f.txt'', ''+++ b/f.txt'', ''@@ -1 +1,2 @@'', ''+a'', [], ''+b'']"

text \<open>What the creation of \<open>README.md\<close> sends to the remote that limits every request.\<close>

definition ex_rl_log :: "request list" where
  "ex_rl_log =
     [\<lparr>rq_method = GET,
       rq_url = ''https://api.github.com/repos/octo/repo/contents/README.md'',
       rq_params = [(''ref'', ''fix'')], rq_json = None\<rparr>,
      \<lparr>rq_method = PUT,
       rq_url = ''https://api.github.com/repos/octo/repo/contents/README.md'',
       rq_params = [],
       rq_json = Some [(''message'', Some ''msg''), (''content'', Some ''hello''),
                       (''branch'', Some ''fix'')]\<rparr>]"

section \<open>What a call sends\<close>

text \<open>
  \<open>extends_by P log log'\<close>: the list \<open>log'\<close> is \<open>log\<close> followed by requests that all
  satisfy \<open>P\<close>.
\<close>

definition extends_by :: "(request \<Rightarrow> bool) \<Rightarrow> request list \<Rightarrow> request list \<Rightarrow> bool" where
  "extends_by P log log' =
     (take (length log) log' = log \<and> list_all P (drop (length log) log'))"

definition not_write_nor_pr :: "request \<Rightarrow> bool" where
  "not_write_nor_pr r = (\<not> is_file_write r \<and> \<not> is_pull_request r)"

definition not_pull_request :: "request \<Rightarrow> bool" where
  "not_pull_request r = (\<not> is_pull_request r)"

definition by_method :: "http_method list \<Rightarrow> request \<Rightarrow> bool" where
  "by_method ms r = (rq_method r \<in> set ms)"

section \<open>Properties of the string and dictionary operations\<close>

lemma split_nl_not_Nil: "split_nl s \<noteq> []"
  by (induction s) (auto split: list.splits)

lemma split_nl_append: "split_nl (a @ CHR 0x0A # b) = split_nl a @ split_nl b"
  by (induction a) (auto split: list.splits simp: split_nl_not_Nil)

lemma split_nl_no_nl: "CHR 0x0A \<notin> set s \<Longrightarrow> split_nl s = [s]"
  by (induction s) auto

lemma split_nl_line: "CHR 0x0A \<notin> set l \<Longrightarrow> split_nl (l @ CHR 0x0A # b) = l # split_nl b"
  by (simp add: split_nl_append split_nl_no_nl)

lemma split_join: "ls \<noteq> [] \<Longrightarrow> \<forall>l\<in>set ls. CHR 0x0A \<notin> set l \<Longrightarrow> split_nl (join_nl ls) = ls"
  by (induction ls rule: join_nl.induct) (auto simp: split_nl_no_nl split_nl_line)

lemma parse_lines_append: "parse_lines st (a @ b) = parse_lines (parse_lines st a) b"
  by (induction a arbitrary: st) auto

lemma map_of_dict_set: "map_of (dict_set d k v) = (map_of d)(k \<mapsto> v)"
  by (induction d k v rule: dict_set.induct) auto

lemma keys_dict_set: "fst ` set (dict_set d k v) = insert k (fst ` set d)"
  by (induction d k v rule: dict_set.induct) auto

section \<open>Properties of the parser\<close>

text \<open>The branches of one iteration, one equation for each.\<close>

lemma parse_line_old_header:
  "startswith l ''--- a/'' \<Longrightarrow>
   parse_line st l = st\<lparr>current_file := Some (drop 6 l), current_content := [], in_hunk := False\<rparr>"
  by (simp add: parse_line_def)

lemma parse_line_new_header:
  "\<not> startswith l ''--- a/'' \<Longrightarrow> startswith l ''+++ b/'' \<Longrightarrow>
   parse_line st l =
     (if truthy (current_file st)
      then st\<lparr>files := dict_set (files st) (the (current_file st)) None, in_hunk := True\<rparr>
      else st\<lparr>in_hunk := True\<rparr>)"
  by (cases "current_file st") (simp_all add: parse_line_def)

lemma parse_line_idle:
  "\<not> startswith l ''--- a/'' \<Longrightarrow> \<not> startswith l ''+++ b/'' \<Longrightarrow>
   \<not> (in_hunk st \<and> truthy (current_file st)) \<Longrightarrow> parse_line st l = st"
  by (cases "in_hunk st") (simp_all add: parse_line_def)

lemma parse_line_in_hunk:
  "\<not> startswith l ''--- a/'' \<Longrightarrow> \<not> startswith l ''+++ b/'' \<Longrightarrow>
   in_hunk st \<Longrightarrow> current_file st = Some cf \<Longrightarrow> cf \<noteq> [] \<Longrightarrow>
   parse_line st l =
     (if added_line l \<or> context_line l then st\<lparr>current_content := current_content st @ [drop 1 l]\<rparr>
      else if removed_line l \<or> hunk_header l then st
      else if current_content st \<noteq> [] then
        st\<lparr>files := dict_set (files st) cf (Some (join_nl (current_content st)))\<rparr>
      else st)"
  by (simp add: parse_line_def added_line_def context_line_def removed_line_def hunk_header_def)

lemma parse_line_files_update:
  assumes "map_of (files s) p = map_of f p"
  shows "agree_at p (parse_line s l) (parse_line (s\<lparr>files := f\<rparr>) l)"
proof (cases "startswith l ''--- a/''")
  case True
  then show ?thesis using assms by (simp add: parse_line_old_header agree_at_def)
next
  case old: False
  show ?thesis
  proof (cases "startswith l ''+++ b/''")
    case True
    then show ?thesis using assms old
      by (simp add: parse_line_new_header agree_at_def map_of_dict_set)
  next
    case new: False
    show ?thesis
    proof (cases "in_hunk s \<and> truthy (current_file s)")
      case False
      then show ?thesis using assms old new by (simp add: parse_line_idle agree_at_def)
    next
      case True
      then obtain cf where cf: "current_file s = Some cf" "cf \<noteq> []" "in_hunk s"
        by (cases "current_file s") auto
      show ?thesis
        using assms cf
        by (simp add: parse_line_in_hunk[OF old new, where cf = cf] agree_at_def map_of_dict_set)
    qed
  qed
qed

lemma agree_at_parse_line:
  assumes "agree_at p s t" shows "agree_at p (parse_line s l) (parse_line t l)"
proof -
  have "t = s\<lparr>files := files t\<rparr>" using assms by (simp add: agree_at_def)
  moreover have "map_of (files s) p = map_of (files t) p" using assms by (simp add: agree_at_def)
  ultimately show ?thesis using parse_line_files_update[of s p "files t" l] by simp
qed

lemma agree_at_parse_lines: "agree_at p s t \<Longrightarrow> agree_at p (parse_lines s ls) (parse_lines t ls)"
  by (induction ls arbitrary: s t) (auto intro: agree_at_parse_line)

lemma parse_section_head:
  "p \<noteq> [] \<Longrightarrow> parse_line (parse_line st (''--- a/'' @ p)) (''+++ b/'' @ q) =
     st\<lparr>files := dict_set (files st) p None, current_file := Some p, current_content := [], in_hunk := True\<rparr>"
  by (simp add: parse_line_def startswith_def)

lemma keys_parse_line: "fst ` set (files st) \<subseteq> fst ` set (files (parse_line st l))"
proof (cases "startswith l ''--- a/''")
  case True
  then show ?thesis by (simp add: parse_line_old_header)
next
  case old: False
  show ?thesis
  proof (cases "startswith l ''+++ b/''")
    case True
    then show ?thesis using old
      by (auto simp add: parse_line_new_header keys_dict_set)
  next
    case new: False
    show ?thesis
    proof (cases "in_hunk st \<and> truthy (current_file st)")
      case False
      then show ?thesis using old new by (simp add: parse_line_idle)
    next
      case True
      then obtain cf where cf: "current_file st = Some cf" "cf \<noteq> []" "in_hunk st"
        by (cases "current_file st") auto
      show ?thesis
        using cf
        by (auto simp add: parse_line_in_hunk[OF old new, where cf = cf] keys_dict_set)
    qed
  qed
qed

lemma keys_parse_lines: "fst ` set (files st) \<subseteq> fst ` set (files (parse_lines st ls))"
proof (induction ls arbitrary: st)
  case Nil show ?case by simp
next
  case (Cons l ls)
  have "fst ` set (files st) \<subseteq> fst ` set (files (parse_line st l))" by (rule keys_parse_line)
  also have "\<dots> \<subseteq> fst ` set (files (parse_lines (parse_line st l) ls))" by (rule Cons.IH)
  finally show ?case by simp
qed

lemma later_section_decides:
  assumes "p \<noteq> []"
  shows "map_of (files (parse_lines st ((''--- a/'' @ p) # (''+++ b/'' @ q) # rest))) p =
         map_of (files (parse_lines init_pstate ((''--- a/'' @ p) # (''+++ b/'' @ q) # rest))) p"
proof -
  let ?h = "\<lambda>s. s\<lparr>files := dict_set (files s) p None, current_file := Some p,
                     current_content := [], in_hunk := True\<rparr>"
  have "agree_at p (?h st) (?h init_pstate)"
    by (simp add: agree_at_def map_of_dict_set)
  then have "agree_at p (parse_lines (?h st) rest) (parse_lines (?h init_pstate) rest)"
    by (rule agree_at_parse_lines)
  then show ?thesis
    using assms by (simp add: parse_section_head[simplified] agree_at_def)
qed

lemma dict_set_keys_list:
  "map fst (dict_set d k v) = (if k \<in> fst ` set d then map fst d else map fst d @ [k])"
  by (induction d k v rule: dict_set.induct) auto

lemma distinct_dict_set:
  "distinct (map fst d) \<Longrightarrow> distinct (map fst (dict_set d k v))"
  by (simp add: dict_set_keys_list)

lemma distinct_parse_line:
  assumes "distinct (map fst (files st))"
  shows "distinct (map fst (files (parse_line st l)))"
proof (cases "startswith l ''--- a/''")
  case True
  then show ?thesis using assms by (simp add: parse_line_old_header)
next
  case old: False
  show ?thesis
  proof (cases "startswith l ''+++ b/''")
    case True
    then show ?thesis using old assms
      by (simp add: parse_line_new_header distinct_dict_set)
  next
    case new: False
    show ?thesis
    proof (cases "in_hunk st \<and> truthy (current_file st)")
      case False
      then show ?thesis using old new assms by (simp add: parse_line_idle)
    next
      case True
      then obtain cf where cf: "current_file st = Some cf" "cf \<noteq> []" "in_hunk st"
        by (cases "current_file st") auto
      show ?thesis
        using cf assms
        by (simp add: parse_line_in_hunk[OF old new, where cf = cf] distinct_dict_set)
    qed
  qed
qed

lemma distinct_parse_lines:
  "distinct (map fst (files st)) \<Longrightarrow> distinct (map fst (files (parse_lines st ls)))"
  by (induction ls arbitrary: st) (simp_all add: distinct_parse_line)

lemma distinct_parse_patch: "distinct (map fst (parse_patch text))"
  by (simp add: parse_patch_def distinct_parse_lines init_pstate_def)

lemma header_tracks_path:
  assumes "p \<noteq> []"
  shows "p \<in> fst ` set (files (parse_lines st ((''--- a/'' @ p) # (''+++ b/'' @ q) # rest)))"
proof -
  let ?h = "st\<lparr>files := dict_set (files st) p None, current_file := Some p,
                 current_content := [], in_hunk := True\<rparr>"
  have "p \<in> fst ` set (files ?h)" by (simp add: keys_dict_set)
  moreover have "fst ` set (files ?h) \<subseteq> fst ` set (files (parse_lines ?h rest))"
    by (rule keys_parse_lines)
  ultimately show ?thesis
    using assms by (auto simp add: parse_section_head[simplified])
qed

lemma header_resets_path:
  assumes "p \<noteq> []"
  shows "map_of (files (parse_lines st [''--- a/'' @ p, ''+++ b/'' @ q])) p = Some None"
  using assms by (simp add: parse_section_head[simplified] map_of_dict_set)

text \<open>
  Claim C2, as amended. The parser has no conflict error: on every text it returns a
  mapping, in which every path has one entry. When a later section \<open>--- a/p\<close>,
  \<open>+++ b/q\<close> names a path \<open>p\<close> (again, if an earlier section named it), \<open>p\<close> is in the
  mapping; the section's \<open>+++ b/\<close> line resets the entry of \<open>p\<close> to \<open>None\<close>, whatever
  it held; and what the mapping finally holds for \<open>p\<close> is what it would hold had the
  text begun at that later section: whatever the earlier sections recorded for \<open>p\<close> is
  replaced.
\<close>

theorem duplicate_path_later_section_wins:
  assumes "p \<noteq> []" and "CHR 0x0A \<notin> set p" and "CHR 0x0A \<notin> set q"
  shows "parse_patch_py (PyStr (first @ CHR 0x0A # ''--- a/'' @ p @ CHR 0x0A # ''+++ b/'' @ q @ CHR 0x0A # rest))
           = Returned (parse_patch (first @ CHR 0x0A # ''--- a/'' @ p @ CHR 0x0A # ''+++ b/'' @ q @ CHR 0x0A # rest))
       \<and> distinct (map fst (parse_patch (first @ CHR 0x0A # ''--- a/'' @ p @ CHR 0x0A # ''+++ b/'' @ q @ CHR 0x0A # rest)))
       \<and> p \<in> fst ` set (parse_patch (first @ CHR 0x0A # ''--- a/'' @ p @ CHR 0x0A # ''+++ b/'' @ q @ CHR 0x0A # rest))
       \<and> map_of (parse_patch (first @ CHR 0x0A # ''--- a/'' @ p @ CHR 0x0A # ''+++ b/'' @ q)) p = Some None
       \<and> map_of (parse_patch (first @ CHR 0x0A # ''--- a/'' @ p @ CHR 0x0A # ''+++ b/'' @ q @ CHR 0x0A # rest)) p
           = map_of (parse_patch (''--- a/'' @ p @ CHR 0x0A # ''+++ b/'' @ q @ CHR 0x0A # rest)) p"
proof -
  have a: "CHR 0x0A \<notin> set (''--- a/'' @ p)" using assms by simp
  have b: "CHR 0x0A \<notin> set (''+++ b/'' @ q)" using assms by simp
  have s: "split_nl (''--- a/'' @ p @ CHR 0x0A # ''+++ b/'' @ q @ CHR 0x0A # rest)
            = (''--- a/'' @ p) # (''+++ b/'' @ q) # split_nl rest"
    using split_nl_line[OF a, of "''+++ b/'' @ q @ CHR 0x0A # rest"] split_nl_line[OF b, of rest]
    by simp
  have t: "split_nl (first @ CHR 0x0A # ''--- a/'' @ p @ CHR 0x0A # ''+++ b/'' @ q @ CHR 0x0A # rest)
            = split_nl first @ (''--- a/'' @ p) # (''+++ b/'' @ q) # split_nl rest"
    using split_nl_append[of first "''--- a/'' @ p @ CHR 0x0A # ''+++ b/'' @ q @ CHR 0x0A # rest"] s
    by simp
  have u: "split_nl (first @ CHR 0x0A # ''--- a/'' @ p @ CHR 0x0A # ''+++ b/'' @ q)
            = split_nl first @ [''--- a/'' @ p, ''+++ b/'' @ q]"
    using split_nl_append[of first "''--- a/'' @ p @ CHR 0x0A # ''+++ b/'' @ q"]
          split_nl_line[OF a, of "''+++ b/'' @ q"] split_nl_no_nl[OF b]
    by simp
  have m: "p \<in> fst ` set (parse_patch (first @ CHR 0x0A # ''--- a/'' @ p @ CHR 0x0A # ''+++ b/'' @ q @ CHR 0x0A # rest))"
    unfolding parse_patch_def t parse_lines_append
    by (rule header_tracks_path[OF assms(1)])
  have r: "map_of (parse_patch (first @ CHR 0x0A # ''--- a/'' @ p @ CHR 0x0A # ''+++ b/'' @ q)) p = Some None"
    unfolding parse_patch_def u parse_lines_append
    by (rule header_resets_path[OF assms(1)])
  have e: "map_of (parse_patch (first @ CHR 0x0A # ''--- a/'' @ p @ CHR 0x0A # ''+++ b/'' @ q @ CHR 0x0A # rest)) p
           = map_of (parse_patch (''--- a/'' @ p @ CHR 0x0A # ''+++ b/'' @ q @ CHR 0x0A # rest)) p"
    unfolding parse_patch_def t s parse_lines_append
    by (rule later_section_decides[OF assms(1)])
  show ?thesis using m r e distinct_parse_patch by simp
qed

theorem duplicate_path_later_section_wins_witness:
  "parse_patch_py (PyStr ((''--- a/f'' @ CHR 0x0A # ''+++ b/f'' @ CHR 0x0A # ''+old'' @ [CHR 0x0A])
        @ CHR 0x0A # ''--- a/'' @ ''f'' @ CHR 0x0A # ''+++ b/'' @ ''f'' @ CHR 0x0A # ''+new'' @ [CHR 0x0A]))
     = Returned (parse_patch ((''--- a/f'' @ CHR 0x0A # ''+++ b/f'' @ CHR 0x0A # ''+old'' @ [CHR 0x0A])
        @ CHR 0x0A # ''--- a/'' @ ''f'' @ CHR 0x0A # ''+++ b/'' @ ''f'' @ CHR 0x0A # ''+new'' @ [CHR 0x0A]))
   \<and> distinct (map fst (parse_patch ((''--- a/f'' @ CHR 0x0A # ''+++ b/f'' @ CHR 0x0A # ''+old'' @ [CHR 0x0A])
        @ CHR 0x0A # ''--- a/'' @ ''f'' @ CHR 0x0A # ''+++ b/'' @ ''f'' @ CHR 0x0A # ''+new'' @ [CHR 0x0A])))
   \<and> ''f'' \<in> fst ` set (parse_patch ((''--- a/f'' @ CHR 0x0A # ''+++ b/f'' @ CHR 0x0A # ''+old'' @ [CHR 0x0A])
        @ CHR 0x0A # ''--- a/'' @ ''f'' @ CHR 0x0A # ''+++ b/'' @ ''f'' @ CHR 0x0A # ''+new'' @ [CHR 0x0A]))
   \<and> map_of (parse_patch ((''--- a/f'' @ CHR 0x0A # ''+++ b/f'' @ CHR 0x0A # ''+old'' @ [CHR 0x0A])
        @ CHR 0x0A # ''--- a/'' @ ''f'' @ CHR 0x0A # ''+++ b/'' @ ''f'')) ''f'' = Some None
   \<and> map_of (parse_patch ((''--- a/f'' @ CHR 0x0A # ''+++ b/f'' @ CHR 0x0A # ''+old'' @ [CHR 0x0A])
        @ CHR 0x0A # ''--- a/'' @ ''f'' @ CHR 0x0A # ''+++ b/'' @ ''f'' @ CHR 0x0A # ''+new'' @ [CHR 0x0A])) ''f''
     = map_of (parse_patch (''--- a/'' @ ''f'' @ CHR 0x0A # ''+++ b/'' @ ''f'' @ CHR 0x0A # ''+new'' @ [CHR 0x0A])) ''f''"
proof -
  have p: "''f'' \<noteq> []" by simp
  have n: "CHR 0x0A \<notin> set ''f''" by simp
  show ?thesis
    by (rule duplicate_path_later_section_wins
          [OF p n n, of "''--- a/f'' @ CHR 0x0A # ''+++ b/f'' @ CHR 0x0A # ''+old'' @ [CHR 0x0A]"
             "''+new'' @ [CHR 0x0A]"])
qed

text \<open>
  Claim C2 as the specification states it fails: a text with two \<open>--- a/f\<close> sections is
  parsed without any error, and the mapping holds the content of the second section only.
\<close>

theorem duplicate_path_no_conflict_counterexample:
  "parse_patch_py (PyStr (join_nl [''--- a/f'', ''+++ b/f'', ''@@ -1 +1 @@'', ''+old'', [],
                                   ''--- a/f'', ''+++ b/f'', ''@@ -1 +1 @@'', ''+new'', []]))
     = Returned [(''f'', Some ''new'')]"
  by code_simp

text \<open>
  Claim C9. On every text the parser returns a mapping; it raises only on a value that is
  not text. No line aborts the parse or drops what was recorded: every path tracked after
  some of the lines is still tracked after all of them, whatever the later lines are.
\<close>

theorem parse_patch_never_raises_on_text:
  "parse_patch_py (PyStr s) = Returned (parse_patch s)
   \<and> ((\<exists>e. parse_patch_py v = Raised e) = (\<exists>t ty. v = PyOther t ty))
   \<and> fst ` set (files (parse_lines init_pstate ls))
       \<subseteq> fst ` set (files (parse_lines init_pstate (ls @ later)))"
proof -
  have "(\<exists>e. parse_patch_py v = Raised e) = (\<exists>t ty. v = PyOther t ty)"
    by (cases v) simp_all
  then show ?thesis
    by (simp add: parse_lines_append keys_parse_lines)
qed

theorem parse_patch_never_raises_on_text_witness:
  "parse_patch_py (PyStr ''@@ not a diff'') = Returned (parse_patch ''@@ not a diff'')
   \<and> (\<exists>e. parse_patch_py (PyOther True ''int'') = Raised e)
   \<and> fst ` set (files (parse_lines init_pstate [''--- a/f'', ''+++ b/f'']))
       \<subseteq> fst ` set (files (parse_lines init_pstate ([''--- a/f'', ''+++ b/f''] @ [''garbage''])))"
  using parse_patch_never_raises_on_text
          [of "''@@ not a diff''" "PyOther True ''int''" "[''--- a/f'', ''+++ b/f'']" "[''garbage'']"]
  by blast

section \<open>Properties of the eligibility check\<close>

text \<open>
  Claim C10. The check declines exactly when the issue has an assignee, or its state is
  not \<open>open\<close>, or one of its labels is in the skip-list; so an unassigned open issue with
  no skip-list label is accepted.
\<close>

theorem should_process_issue_declines_iff:
  "(\<not> should_process_issue ic) =
     (has_assignee ic \<or> ic_state ic \<noteq> Some ''open'' \<or>
      (\<exists>label. label \<in> set (ic_labels ic) \<and> label \<in> set skip_labels))"
  by (auto simp: should_process_issue_def list_ex_iff)

theorem should_process_issue_declines_iff_witness:
  "should_process_issue \<lparr>ic_assignee = None, ic_state = Some ''open'', ic_labels = [''bug'']\<rparr>
   \<and> \<not> should_process_issue
         \<lparr>ic_assignee = Some [(''login'', ''octocat'')], ic_state = Some ''open'', ic_labels = []\<rparr>
   \<and> \<not> should_process_issue \<lparr>ic_assignee = None, ic_state = Some ''reopened'', ic_labels = []\<rparr>
   \<and> \<not> should_process_issue
         \<lparr>ic_assignee = None, ic_state = Some ''open'', ic_labels = [''bug'', ''security'']\<rparr>"
  using should_process_issue_declines_iff
          [of "\<lparr>ic_assignee = None, ic_state = Some ''open'', ic_labels = [''bug'']\<rparr>"]
        should_process_issue_declines_iff
          [of "\<lparr>ic_assignee = Some [(''login'', ''octocat'')], ic_state = Some ''open'', ic_labels = []\<rparr>"]
        should_process_issue_declines_iff
          [of "\<lparr>ic_assignee = None, ic_state = Some ''reopened'', ic_labels = []\<rparr>"]
        should_process_issue_declines_iff
          [of "\<lparr>ic_assignee = None, ic_state = Some ''open'', ic_labels = [''bug'', ''security'']\<rparr>"]
  by (simp add: has_assignee_def skip_labels_def conj_disj_distribR ex_disj_distrib)

section \<open>Properties of the HTTP layer\<close>

lemma make_request_sends:
  "make_request e log m u ps js = (res, log') \<Longrightarrow>
   log' = log @ [\<lparr>rq_method = m, rq_url = u, rq_params = ps, rq_json = js\<rparr>]"
  by (auto simp: make_request_def Let_def split: http_response.splits if_splits)

text \<open>
  Every call of \<open>_make_request\<close> sends its request once, whatever the answer, and when the
  answer is the provider's rate-limit response (status 403, \<open>rate limit\<close> in the body) the
  call returns a failure whose error is \<open>GitHub API rate limit exceeded\<close>.
\<close>

lemma rate_limited_request_fails_at_once:
  "snd (make_request e log m u ps js) =
     log @ [\<lparr>rq_method = m, rq_url = u, rq_params = ps, rq_json = js\<rparr>]
   \<and> (rate_limited (respond e (log @ [\<lparr>rq_method = m, rq_url = u, rq_params = ps, rq_json = js\<rparr>]))
        \<longrightarrow> \<not> r_success (fst (make_request e log m u ps js))
            \<and> r_error (fst (make_request e log m u ps js)) = Some ''GitHub API rate limit exceeded'')"
  by (auto simp: make_request_def Let_def rate_limited_def empty_result_def failure_def
           split: http_response.splits)

lemma rate_limited_request_fails_at_once_example:
  "rate_limited (respond rl_env ([] @ [\<lparr>rq_method = PUT, rq_url = ''u'', rq_params = [], rq_json = None\<rparr>]))
   \<and> snd (make_request rl_env [] PUT ''u'' [] None) =
       [] @ [\<lparr>rq_method = PUT, rq_url = ''u'', rq_params = [], rq_json = None\<rparr>]
   \<and> \<not> r_success (fst (make_request rl_env [] PUT ''u'' [] None))
   \<and> r_error (fst (make_request rl_env [] PUT ''u'' [] None)) = Some ''GitHub API rate limit exceeded''"
proof -
  have h: "rate_limited (respond rl_env
             ([] @ [\<lparr>rq_method = PUT, rq_url = ''u'', rq_params = [], rq_json = None\<rparr>]))"
    by code_simp
  show ?thesis
    using h rate_limited_request_fails_at_once [of rl_env "[]" PUT "''u''" "[]" None]
    by blast
qed

text \<open>
  Claim C4 as the specification states it fails: the write of a new file, answered with
  the rate-limit response, is sent once and no more, and the failure is what
  \<open>create_file\<close> returns.
\<close>

theorem rate_limit_not_retried_counterexample:
  "create_file rl_env [] ''octo/repo'' ''README.md'' ''hello'' ''msg'' ''fix'' =
     (empty_result\<lparr>r_error := Some ''GitHub API rate limit exceeded'',
                    r_retry_after := Some ''1700000000''\<rparr>,
      [\<lparr>rq_method = PUT,
        rq_url = ''https://api.github.com/repos/octo/repo/contents/README.md'',
        rq_params = [],
        rq_json = Some [(''message'', Some ''msg''), (''content'', Some ''hello''),
                        (''branch'', Some ''fix'')]\<rparr>])"
  by code_simp

section \<open>The code at the inputs where it departs from the specification\<close>

text \<open>
  Claim C3 at a failing input. The diff adds one line to \<open>hello.txt\<close>, which does not
  exist remotely, and ends with that line. The parser's entry for the file is still
  \<open>None\<close> at the end of the input, so \<open>apply_patch\<close> takes the deletion branch: one read,
  no write, and the file is reported as failed. The same diff followed by a line break
  is applied as the claim says, by one write carrying \<open>hello\<close>.
\<close>

theorem unterminated_hunk_is_not_created:
  "apply_patch missing_env [] ''octo/repo'' ''fix''
     (PyStr (join_nl [''--- a/hello.txt'', ''+++ b/hello.txt'', ''@@ -0,0 +1 @@'', ''+hello'']))
     ''msg'' =
     (\<lparr>p_success = False, p_error = None, p_files_processed = Some 1,
        p_files_successful = Some 0,
        p_results = Some [\<lparr>fr_file_path = ''hello.txt'', fr_success = False,
          fr_error = Some ''Could not get file SHA for deletion: GitHub API error: 404 - Not Found''\<rparr>]\<rparr>,
      [\<lparr>rq_method = GET,
        rq_url = ''https://api.github.com/repos/octo/repo/contents/hello.txt'',
        rq_params = [(''ref'', ''fix'')], rq_json = None\<rparr>])
   \<and> apply_patch missing_env [] ''octo/repo'' ''fix''
     (PyStr (join_nl [''--- a/hello.txt'', ''+++ b/hello.txt'', ''@@ -0,0 +1 @@'', ''+hello'', []]))
     ''msg'' =
     (\<lparr>p_success = True, p_error = None, p_files_processed = Some 1,
        p_files_successful = Some 1,
        p_results = Some [\<lparr>fr_file_path = ''hello.txt'', fr_success = True, fr_error = None\<rparr>]\<rparr>,
      [\<lparr>rq_method = GET,
        rq_url = ''https://api.github.com/repos/octo/repo/contents/hello.txt'',
        rq_params = [(''ref'', ''fix'')], rq_json = None\<rparr>,
       \<lparr>rq_method = PUT,
        rq_url = ''https://api.github.com/repos/octo/repo/contents/hello.txt'',
        rq_params = [],
        rq_json = Some [(''message'', Some ''msg''), (''content'', Some ''hello''),
                        (''branch'', Some ''fix'')]\<rparr>])"
  by code_simp

text \<open>
  Claim C7 at a failing input. The file exists remotely and is empty. \<open>get_file_content\<close>
  then returns the dictionary of \<open>_make_request\<close> as it is, in which the \<open>sha\<close> lies under
  \<open>data\<close>, so \<open>file_info.get('sha')\<close> is \<open>None\<close>: the deletion and the update are both sent,
  with \<open>sha\<close> null, although the read had answered with the file's revision.
\<close>

theorem write_sent_without_revision_token:
  "delete_file empty_file_env [] ''octo/repo'' ''pkg/__init__.py'' ''msg'' ''fix'' =
     (succeeded,
      [\<lparr>rq_method = GET,
        rq_url = ''https://api.github.com/repos/octo/repo/contents/pkg/__init__.py'',
        rq_params = [(''ref'', ''fix'')], rq_json = None\<rparr>,
       \<lparr>rq_method = DELETE,
        rq_url = ''https://api.github.com/repos/octo/repo/contents/pkg/__init__.py'',
        rq_params = [],
        rq_json = Some [(''message'', Some ''msg''), (''sha'', None), (''branch'', Some ''fix'')]\<rparr>])
   \<and> apply_file empty_file_env [] ''octo/repo'' ''fix'' ''msg'' (''pkg/__init__.py'', Some ''x = 1'') =
     (Returned succeeded,
      [\<lparr>rq_method = GET,
        rq_url = ''https://api.github.com/repos/octo/repo/contents/pkg/__init__.py'',
        rq_params = [(''ref'', ''fix'')], rq_json = None\<rparr>,
       \<lparr>rq_method = GET,
        rq_url = ''https://api.github.com/repos/octo/repo/contents/pkg/__init__.py'',
        rq_params = [(''ref'', ''fix'')], rq_json = None\<rparr>,
       \<lparr>rq_method = PUT,
        rq_url = ''https://api.github.com/repos/octo/repo/contents/pkg/__init__.py'',
        rq_params = [],
        rq_json = Some [(''message'', Some ''msg''), (''content'', Some ''x = 1''),
                        (''sha'', None), (''branch'', Some ''fix'')]\<rparr>])"
  by code_simp

text \<open>
  Claim C6 at a failing input. The patch has three files and the second path is a
  directory on the remote, whose read is answered with a JSON array. The call of
  \<open>get_file_content\<close> in the loop stands in no \<open>try\<close> of its own (the calls in
  \<open>update_file\<close> and \<open>_delete_file\<close> do), so its \<open>AttributeError\<close> leaves the loop: the
  first file has been written, the third is never attempted, and the result has no
  counts and no per-file results.
\<close>

theorem raising_read_leaves_no_counts:
  "parse_patch ex_dir_patch =
     [(''a.txt'', Some ''one''), (''docs'', Some ''two''), (''c.txt'', Some ''three'')]
   \<and> apply_patch dir_env [] ''octo/repo'' ''fix'' (PyStr ex_dir_patch) ''msg'' =
     (\<lparr>p_success = False,
        p_error = Some (''Patch application failed: '' @ [CHR 0x27] @ ''list'' @ [CHR 0x27] @
                        '' object has no attribute '' @ [CHR 0x27] @ ''get'' @ [CHR 0x27]),
        p_files_processed = None, p_files_successful = None, p_results = None\<rparr>,
      [\<lparr>rq_method = GET,
        rq_url = ''https://api.github.com/repos/octo/repo/contents/a.txt'',
        rq_params = [(''ref'', ''fix'')], rq_json = None\<rparr>,
       \<lparr>rq_method = PUT,
        rq_url = ''https://api.github.com/repos/octo/repo/contents/a.txt'',
        rq_params = [],
        rq_json = Some [(''message'', Some ''msg''), (''content'', Some ''one''),
                        (''branch'', Some ''fix'')]\<rparr>,
       \<lparr>rq_method = GET,
        rq_url = ''https://api.github.com/repos/octo/repo/contents/docs'',
        rq_params = [(''ref'', ''fix'')], rq_json = None\<rparr>])"
  by code_simp

section \<open>The requests each operation sends\<close>

lemma extends_by_append [simp]: "extends_by P log (log @ new) = list_all P new"
  by (simp add: extends_by_def)

lemma extends_by_refl [simp]: "extends_by P log log"
  by (simp add: extends_by_def)

lemma extends_byE:
  assumes "extends_by P log log'"
  obtains new where "log' = log @ new" and "list_all P new"
proof -
  have "log' = log @ drop (length log) log'"
    using assms by (metis append_take_drop_id extends_by_def)
  moreover have "list_all P (drop (length log) log')" using assms by (simp add: extends_by_def)
  ultimately show ?thesis using that by blast
qed

lemma extends_by_trans:
  "extends_by P a b \<Longrightarrow> extends_by P b c \<Longrightarrow> extends_by P a c"
  by (elim extends_byE) simp

lemma extends_by_mono:
  "extends_by P a b \<Longrightarrow> (\<And>r. P r \<Longrightarrow> Q r) \<Longrightarrow> extends_by Q a b"
  by (elim extends_byE) (auto simp: list_all_iff)

lemma make_request_extends:
  "make_request e log m u ps js = (res, log') \<Longrightarrow>
   P \<lparr>rq_method = m, rq_url = u, rq_params = ps, rq_json = js\<rparr> \<Longrightarrow> extends_by P log log'"
  by (drule make_request_sends) simp

lemma get_default_branch_reads:
  "get_default_branch e log repo = (x, log') \<Longrightarrow> extends_by is_read log log'"
  by (auto simp: get_default_branch_def get_repository_info_def is_read_def
           split: prod.splits if_splits outcome.splits option.splits
           dest!: make_request_sends)

lemma get_branch_sha_reads:
  "get_branch_sha e log repo b = (x, log') \<Longrightarrow> extends_by is_read log log'"
  by (auto simp: get_branch_sha_def is_read_def
           split: prod.splits if_splits dest!: make_request_sends)

lemma get_file_content_reads:
  "get_file_content e log repo path b = (x, log') \<Longrightarrow> extends_by is_read log log'"
  by (auto simp: get_file_content_def is_read_def
           split: prod.splits if_splits outcome.splits
           dest!: make_request_sends get_default_branch_reads elim!: extends_byE)

lemma read_not_write_nor_pr: "is_read r \<Longrightarrow> not_write_nor_pr r"
  by (simp add: is_read_def not_write_nor_pr_def is_file_write_def is_pull_request_def)

lemma refs_not_pulls: "\<not> suffix ''/pulls'' (x @ ''/git/refs'')"
  by (simp add: suffix_to_prefix)

lemma ref_post_not_pr:
  "not_write_nor_pr \<lparr>rq_method = POST, rq_url = api_base @ ''/repos/'' @ repo @ ''/git/refs'',
                      rq_params = ps, rq_json = js\<rparr>"
  using refs_not_pulls[of "api_base @ ''/repos/'' @ repo"]
  by (simp add: not_write_nor_pr_def is_file_write_def is_pull_request_def)

lemma get_default_branch_sends:
  "get_default_branch e log repo = (x, log') \<Longrightarrow> extends_by not_write_nor_pr log log'"
  by (blast intro: extends_by_mono get_default_branch_reads read_not_write_nor_pr)

lemma get_branch_sha_sends:
  "get_branch_sha e log repo b = (x, log') \<Longrightarrow> extends_by not_write_nor_pr log log'"
  by (blast intro: extends_by_mono get_branch_sha_reads read_not_write_nor_pr)

lemma create_branch_from_sends:
  "create_branch_from e log repo bn base = (x, log') \<Longrightarrow> extends_by not_write_nor_pr log log'"
  by (auto simp: create_branch_from_def ref_post_not_pr[simplified]
           split: prod.splits if_splits outcome.splits
           dest!: make_request_sends get_branch_sha_sends elim!: extends_byE)

lemma create_branch_try_sends:
  "create_branch_try e log repo bn base = (x, log') \<Longrightarrow> extends_by not_write_nor_pr log log'"
  by (auto simp: create_branch_try_def
           split: prod.splits if_splits outcome.splits
           dest!: create_branch_from_sends get_default_branch_sends
           elim!: extends_byE)

lemma create_branch_sends:
  "create_branch e log repo bn base = (x, log') \<Longrightarrow> extends_by not_write_nor_pr log log'"
  by (auto simp: create_branch_def split: prod.splits outcome.splits dest: create_branch_try_sends)

lemma by_method_mono: "by_method ms r \<Longrightarrow> set ms \<subseteq> set ms' \<Longrightarrow> by_method ms' r"
  by (auto simp: by_method_def)

lemma read_by_method: "is_read r \<Longrightarrow> by_method [GET] r"
  by (simp add: is_read_def by_method_def)

lemma get_file_content_methods:
  "get_file_content e log repo path b = (x, log') \<Longrightarrow> extends_by (by_method [GET]) log log'"
  by (blast intro: extends_by_mono get_file_content_reads read_by_method)

lemma written_log: "written (res, log1) = (x, log') \<Longrightarrow> log' = log1"
  by (auto simp: written_def split: if_splits outcome.splits prod.splits)

lemma put_with_sha_methods:
  "put_with_sha e log repo path c msg b sha = (x, log') \<Longrightarrow> extends_by (by_method [PUT]) log log'"
  by (cases "make_request e log PUT (api_base @ ''/repos/'' @ repo @ ''/contents/'' @ path) []
                (Some [(''message'', Some msg), (''content'', Some (b64encode_utf8 e c)),
                       (''sha'', sha), (''branch'', Some b)])")
     (auto simp: put_with_sha_def by_method_def dest!: written_log make_request_sends)

lemma update_file_try_methods:
  "update_file_try e log repo path c msg b sha = (x, log') \<Longrightarrow>
   extends_by (by_method [GET, PUT]) log log'"
  by (auto simp: update_file_try_def list_all_iff by_method_def
           split: if_splits prod.splits outcome.splits
           dest!: get_file_content_methods put_with_sha_methods elim!: extends_byE)

lemma update_file_methods:
  "update_file e log repo path c msg b sha = (x, log') \<Longrightarrow>
   extends_by (by_method [GET, PUT]) log log'"
  by (auto simp: update_file_def split: prod.splits outcome.splits dest: update_file_try_methods)

lemma create_file_methods:
  "create_file e log repo path c msg b = (x, log') \<Longrightarrow> extends_by (by_method [PUT]) log log'"
  by (cases "make_request e log PUT (api_base @ ''/repos/'' @ repo @ ''/contents/'' @ path) []
                (Some [(''message'', Some msg), (''content'', Some (b64encode_utf8 e c)),
                       (''branch'', Some b)])")
     (auto simp: create_file_def by_method_def split: prod.splits outcome.splits
           dest!: written_log make_request_sends)

lemma delete_file_try_methods:
  "delete_file_try e log repo path msg b = (x, log') \<Longrightarrow>
   extends_by (by_method [GET, DELETE]) log log'"
  by (auto simp: delete_file_try_def list_all_iff by_method_def
           split: if_splits prod.splits outcome.splits
           dest!: get_file_content_methods make_request_sends elim!: extends_byE)

lemma delete_file_methods:
  "delete_file e log repo path msg b = (x, log') \<Longrightarrow>
   extends_by (by_method [GET, DELETE]) log log'"
  by (auto simp: delete_file_def split: prod.splits outcome.splits dest: delete_file_try_methods)

lemma apply_file_methods:
  "apply_file e log repo b msg entry = (x, log') \<Longrightarrow>
   extends_by (by_method [GET, PUT, DELETE]) log log'"
  by (auto simp: apply_file_def list_all_iff by_method_def
           split: if_splits prod.splits outcome.splits option.splits
           dest!: get_file_content_methods delete_file_methods update_file_methods
                  create_file_methods
           elim!: extends_byE)

lemma apply_files_methods:
  "apply_files e log repo b msg fs = (x, log') \<Longrightarrow>
   extends_by (by_method [GET, PUT, DELETE]) log log'"
proof (induction fs arbitrary: log x log')
  case Nil
  then show ?case by simp
next
  case (Cons entry rest)
  obtain y log1 where a: "apply_file e log repo b msg entry = (y, log1)"
    by (cases "apply_file e log repo b msg entry")
  have e1: "extends_by (by_method [GET, PUT, DELETE]) log log1"
    using a by (rule apply_file_methods)
  show ?case
  proof (cases y)
    case (Raised m)
    then show ?thesis using Cons.prems a e1 by simp
  next
    case (Returned res)
    obtain z log2 where r: "apply_files e log1 repo b msg rest = (z, log2)"
      by (cases "apply_files e log1 repo b msg rest")
    have e2: "extends_by (by_method [GET, PUT, DELETE]) log1 log2"
      using r by (rule Cons.IH)
    have "log' = log2"
      using Cons.prems a r Returned by (cases z) auto
    then show ?thesis using e1 e2 by (blast intro: extends_by_trans)
  qed
qed

lemma apply_files_paths:
  "apply_files e log repo b msg fs = (Returned rs, log') \<Longrightarrow> map fr_file_path rs = map fst fs"
  by (induction fs arbitrary: log rs log')
     (auto split: prod.splits outcome.splits)

section \<open>Properties of patch application and of the coordinator\<close>

lemma parse_patch_Nil: "parse_patch [] = []"
  by (simp add: parse_patch_def parse_line_def init_pstate_def startswith_def)

text \<open>
  Claim C8. When \<open>create_branch\<close> fails, for whatever reason (the default branch is not
  resolved, the head of the base branch is not fetched, the remote refuses the new
  reference, or an exception is caught), the coordinator returns at once: nothing is
  recorded as done, the only error is the branch error, and the requests sent are those of
  \<open>create_branch\<close>, none of which writes or deletes a file or opens a pull request.
\<close>

theorem branch_failure_aborts_request:
  assumes "ar_can_auto_fix ar" and "oe_tools_error oe = None"
    and "create_branch e log (pystr (rc_full_name rc)) (autofix_branch_name oe ic) (base_of rc)
           = (branch_result, log1)"
    and "\<not> r_success branch_result"
  shows "execute_agent_actions e oe log ar ic rc =
           (initial_results\<lparr>x_errors :=
              [''Failed to create branch: '' @ pystr (r_error branch_result)]\<rparr>, log1)
         \<and> extends_by not_write_nor_pr log log1"
proof -
  have "extends_by not_write_nor_pr log log1"
    using assms(3) by (rule create_branch_sends)
  then show ?thesis
    using assms by (simp add: execute_agent_actions_def)
qed

text \<open>
  When the patch has entries and the loop over them runs to its end, the result holds one
  entry per file of the patch, in the patch's order; \<open>files_processed\<close> is the number of
  entries, \<open>files_successful\<close> the number of entries marked succeeded, and \<open>success\<close>
  holds exactly when the two are equal.
\<close>

lemma apply_patch_aggregates:
  assumes "parse_patch_py patch = Returned fs" and "fs \<noteq> []"
    and "apply_files e log repo b msg fs = (Returned rs, log')"
  shows "apply_patch e log repo b patch msg =
           (\<lparr>p_success = (length (filter fr_success rs) = length rs), p_error = None,
              p_files_processed = Some (length rs),
              p_files_successful = Some (length (filter fr_success rs)),
              p_results = Some rs\<rparr>, log')
         \<and> p_success (fst (apply_patch e log repo b patch msg)) =
             (p_files_successful (fst (apply_patch e log repo b patch msg)) =
              p_files_processed (fst (apply_patch e log repo b patch msg)))
         \<and> map fr_file_path rs = map fst fs"
proof -
  have p: "map fr_file_path rs = map fst fs"
    using assms(3) by (rule apply_files_paths)
  have a: "apply_patch e log repo b patch msg =
           (\<lparr>p_success = (length (filter fr_success rs) = length rs), p_error = None,
              p_files_processed = Some (length rs),
              p_files_successful = Some (length (filter fr_success rs)),
              p_results = Some rs\<rparr>, log')"
    using assms by (simp add: apply_patch_def Let_def)
  show ?thesis using p by (simp add: a)
qed

text \<open>
  Claim C1, as amended. When at least one file operation fails, whether or not others
  succeed, every file of the patch has been attempted and the patch result counts them
  as the claim says, with \<open>success\<close> false; the coordinator then records
  \<open>Failed to apply patch\<close> and returns: it sends nothing after the last file operation,
  and no request of the whole run opens a pull request.
\<close>

theorem failed_patch_stops_before_pull_request:
  assumes "ar_can_auto_fix ar" and "oe_tools_error oe = None"
    and "create_branch e log (pystr (rc_full_name rc)) (autofix_branch_name oe ic) (base_of rc)
           = (branch_result, log1)"
    and "r_success branch_result"
    and "ar_patch ar = Some (PyStr text)" and "parse_patch text \<noteq> []"
    and "apply_files e log1 (pystr (rc_full_name rc)) (autofix_branch_name oe ic)
           (''AutoFix: '' @ issue_title ic) (parse_patch text) = (Returned rs, log2)"
    and "length (filter fr_success rs) < length rs"
  shows "apply_patch e log1 (pystr (rc_full_name rc)) (autofix_branch_name oe ic) (PyStr text)
           (''AutoFix: '' @ issue_title ic) =
           (\<lparr>p_success = False, p_error = None,
              p_files_processed = Some (length (parse_patch text)),
              p_files_successful = Some (length (filter fr_success rs)),
              p_results = Some rs\<rparr>, log2)
         \<and> execute_agent_actions e oe log ar ic rc =
           (initial_results\<lparr>x_actions_taken := [''Created branch: '' @ autofix_branch_name oe ic],
                             x_errors := [''Failed to apply patch: None'']\<rparr>, log2)
         \<and> extends_by not_pull_request log log2"
proof -
  have len: "length rs = length (parse_patch text)"
    using apply_files_paths[OF assms(7)] by (metis length_map)
  have ap: "apply_patch e log1 (pystr (rc_full_name rc)) (autofix_branch_name oe ic) (PyStr text)
           (''AutoFix: '' @ issue_title ic) =
           (\<lparr>p_success = False, p_error = None,
              p_files_processed = Some (length (parse_patch text)),
              p_files_successful = Some (length (filter fr_success rs)),
              p_results = Some rs\<rparr>, log2)"
    using assms(6,7,8) len by (simp add: apply_patch_def Let_def)
  have t: "text \<noteq> []" using assms(6) parse_patch_Nil by auto
  have ex: "execute_agent_actions e oe log ar ic rc =
           (initial_results\<lparr>x_actions_taken := [''Created branch: '' @ autofix_branch_name oe ic],
                             x_errors := [''Failed to apply patch: None'']\<rparr>, log2)"
    using assms(1-5) t ap by (simp add: execute_agent_actions_def Let_def)
  have b: "extends_by not_pull_request log log1"
    using create_branch_sends[OF assms(3)]
    by (rule extends_by_mono) (simp add: not_write_nor_pr_def not_pull_request_def)
  have f: "extends_by not_pull_request log1 log2"
    using apply_files_methods[OF assms(7)]
    by (rule extends_by_mono)
       (auto simp: by_method_def not_pull_request_def is_pull_request_def)
  show ?thesis using ap ex extends_by_trans[OF b f] by simp
qed

text \<open>The example request, step by step.\<close>

lemma ex_branch_created:
  "create_branch conflict_env [] (pystr (rc_full_name ex_repo))
     (autofix_branch_name ex_orch_env ex_issue) (base_of ex_repo) =
     (succeeded\<lparr>r_branch_name := Some ''autofix-7-1700'', r_sha := Some ''abc123''\<rparr>,
      ex_branch_log)"
  by code_simp

lemma ex_patch_parsed:
  "parse_patch ex_patch =
     [(''a.txt'', Some ''one''), (''b.txt'', Some ''two''), (''c.txt'', Some ''three'')]"
  by code_simp

lemma ex_files_applied:
  "apply_files conflict_env ex_branch_log (pystr (rc_full_name ex_repo))
     (autofix_branch_name ex_orch_env ex_issue) (''AutoFix: '' @ issue_title ex_issue)
     (parse_patch ex_patch) = (Returned ex_file_results, ex_branch_log @ ex_file_log)"
  by code_simp

lemma ex_branch_missing:
  "create_branch missing_env [] (pystr (rc_full_name ex_repo))
     (autofix_branch_name ex_orch_env ex_issue) (base_of ex_repo) =
     (failure ''Could not get SHA for base branch main'', [hd ex_branch_log])"
  by code_simp

theorem branch_failure_aborts_request_witness:
  "execute_agent_actions missing_env ex_orch_env [] ex_response ex_issue ex_repo =
     (initial_results\<lparr>x_errors :=
        [''Failed to create branch: '' @
         pystr (r_error (failure ''Could not get SHA for base branch main''))]\<rparr>,
      [hd ex_branch_log])
   \<and> extends_by not_write_nor_pr [] [hd ex_branch_log]"
proof -
  have a: "ar_can_auto_fix ex_response" by code_simp
  have t: "oe_tools_error ex_orch_env = None" by code_simp
  have n: "\<not> r_success (failure ''Could not get SHA for base branch main'')" by code_simp
  show ?thesis
    by (rule branch_failure_aborts_request [OF a t ex_branch_missing n])
qed

lemma apply_patch_aggregates_example:
  "apply_patch conflict_env ex_branch_log (pystr (rc_full_name ex_repo))
     (autofix_branch_name ex_orch_env ex_issue) (PyStr ex_patch)
     (''AutoFix: '' @ issue_title ex_issue) =
     (\<lparr>p_success = False, p_error = None, p_files_processed = Some 3,
        p_files_successful = Some 2, p_results = Some ex_file_results\<rparr>,
      ex_branch_log @ ex_file_log)"
proof -
  have p: "parse_patch_py (PyStr ex_patch) = Returned (parse_patch ex_patch)" by simp
  have n: "parse_patch ex_patch \<noteq> []" by (simp add: ex_patch_parsed)
  have c: "length (filter fr_success ex_file_results) = 2" "length ex_file_results = 3"
    by (simp_all add: ex_file_results_def)
  show ?thesis
    using apply_patch_aggregates [OF p n ex_files_applied] c by simp
qed

theorem failed_patch_stops_before_pull_request_witness:
  "apply_patch conflict_env ex_branch_log (pystr (rc_full_name ex_repo))
     (autofix_branch_name ex_orch_env ex_issue) (PyStr ex_patch)
     (''AutoFix: '' @ issue_title ex_issue) =
     (\<lparr>p_success = False, p_error = None,
        p_files_processed = Some (length (parse_patch ex_patch)),
        p_files_successful = Some (length (filter fr_success ex_file_results)),
        p_results = Some ex_file_results\<rparr>, ex_branch_log @ ex_file_log)
   \<and> execute_agent_actions conflict_env ex_orch_env [] ex_response ex_issue ex_repo =
     (initial_results\<lparr>x_actions_taken :=
          [''Created branch: '' @ autofix_branch_name ex_orch_env ex_issue],
        x_errors := [''Failed to apply patch: None'']\<rparr>, ex_branch_log @ ex_file_log)
   \<and> extends_by not_pull_request [] (ex_branch_log @ ex_file_log)"
proof -
  have a: "ar_can_auto_fix ex_response" by code_simp
  have t: "oe_tools_error ex_orch_env = None" by code_simp
  have s: "r_success (succeeded\<lparr>r_branch_name := Some ''autofix-7-1700'',
                                  r_sha := Some ''abc123''\<rparr>)" by code_simp
  have p: "ar_patch ex_response = Some (PyStr ex_patch)" by (simp add: ex_response_def)
  have n: "parse_patch ex_patch \<noteq> []" by (simp add: ex_patch_parsed)
  have l: "length (filter fr_success ex_file_results) < length ex_file_results"
    by (simp add: ex_file_results_def)
  show ?thesis
    by (rule failed_patch_stops_before_pull_request
          [OF a t ex_branch_created s p n ex_files_applied l])
qed

text \<open>
  Claim C1 as the specification states it fails: of three files the second is refused
  with 409, two succeed, and the run ends with the last file operation; no pull request is
  opened and the coordinator reports failure.
\<close>

theorem partial_failure_opens_no_pull_request_counterexample:
  "fst (apply_patch conflict_env ex_branch_log ''octo/repo'' ''autofix-7-1700'' (PyStr ex_patch)
          ''AutoFix: Fix typo'') =
     \<lparr>p_success = False, p_error = None, p_files_processed = Some 3,
        p_files_successful = Some 2, p_results = Some ex_file_results\<rparr>
   \<and> execute_agent_actions conflict_env ex_orch_env [] ex_response ex_issue ex_repo =
     (\<lparr>x_success = False, x_actions_taken = [''Created branch: autofix-7-1700''],
        x_errors = [''Failed to apply patch: None''], x_artifacts = [],
        x_test_build_id = None, x_pr_url = None\<rparr>, ex_branch_log @ ex_file_log)
   \<and> \<not> list_ex is_pull_request (ex_branch_log @ ex_file_log)"
  by code_simp

section \<open>A hunk that the input ends in\<close>

lemma hunk_line_not_header:
  "hunk_line l \<Longrightarrow> \<not> startswith l ''--- a/'' \<and> \<not> startswith l ''+++ b/''"
  by (auto simp: hunk_line_def old_file_header_def added_line_def context_line_def
                 removed_line_def hunk_header_def startswith_def prefix_def)

lemma parse_line_hunk_line:
  assumes "in_hunk st" and "current_file st = Some p" and "p \<noteq> []" and "hunk_line l"
  shows "files (parse_line st l) = files st \<and> in_hunk (parse_line st l)
         \<and> current_file (parse_line st l) = Some p"
proof -
  have h: "\<not> startswith l ''--- a/''" "\<not> startswith l ''+++ b/''"
    using hunk_line_not_header[OF assms(4)] by simp_all
  have k: "added_line l \<or> context_line l \<or> removed_line l \<or> hunk_header l"
    using assms(4) by (simp add: hunk_line_def)
  show ?thesis
    using k assms(1,2)
    by (auto simp add: parse_line_in_hunk[OF h assms(1,2,3)])
qed

lemma parse_lines_hunk_body:
  "in_hunk st \<Longrightarrow> current_file st = Some p \<Longrightarrow> p \<noteq> [] \<Longrightarrow> \<forall>l\<in>set body. hunk_line l \<Longrightarrow>
   files (parse_lines st body) = files st"
proof (induction body arbitrary: st)
  case Nil
  then show ?case by simp
next
  case (Cons l body)
  have s: "files (parse_line st l) = files st \<and> in_hunk (parse_line st l)
           \<and> current_file (parse_line st l) = Some p"
    using Cons.prems by (intro parse_line_hunk_line) simp_all
  then have "files (parse_lines (parse_line st l) body) = files (parse_line st l)"
    using Cons.prems by (intro Cons.IH) simp_all
  then show ?case using s by simp
qed

lemma open_hunk_maps_to_None:
  assumes "p \<noteq> []" and "\<forall>l\<in>set body. hunk_line l"
  shows "map_of (files (parse_lines (parse_lines st [''--- a/'' @ p, ''+++ b/'' @ q]) body)) p
           = Some None"
proof -
  let ?h = "st\<lparr>files := dict_set (files st) p None, current_file := Some p,
                 current_content := [], in_hunk := True\<rparr>"
  have "files (parse_lines ?h body) = files ?h"
    using assms by (intro parse_lines_hunk_body[where p = p]) simp_all
  then show ?thesis
    using assms(1) by (simp add: parse_section_head[simplified] map_of_dict_set)
qed

lemma apply_files_snoc:
  "apply_files e log repo b msg fs = (Returned rs, log1) \<Longrightarrow>
   apply_files e log repo b msg (fs @ [entry]) =
     (case apply_file e log1 repo b msg entry of
        (Raised x, l) \<Rightarrow> (Raised x, l)
      | (Returned res, l) \<Rightarrow>
          (Returned (rs @ [\<lparr>fr_file_path = fst entry, fr_success = r_success res,
                             fr_error = r_error res\<rparr>]), l))"
proof (induction fs arbitrary: log rs)
  case Nil
  then show ?case by (auto split: prod.splits outcome.splits)
next
  case (Cons f fs)
  obtain y l0 where a: "apply_file e log repo b msg f = (y, l0)"
    by (cases "apply_file e log repo b msg f")
  show ?case
  proof (cases y)
    case (Raised m)
    then show ?thesis using Cons.prems a by simp
  next
    case (Returned res0)
    obtain z l2 where r: "apply_files e l0 repo b msg fs = (z, l2)"
      by (cases "apply_files e l0 repo b msg fs")
    show ?thesis
    proof (cases z)
      case (Raised m)
      then show ?thesis using Cons.prems a r Returned by simp
    next
      case inner: (Returned rs0)
      have l: "l2 = log1" and rs: "rs = \<lparr>fr_file_path = fst f, fr_success = r_success res0,
                             fr_error = r_error res0\<rparr> # rs0"
        using Cons.prems a r Returned inner by simp_all
      have "apply_files e l0 repo b msg (fs @ [entry]) =
         (case apply_file e log1 repo b msg entry of
            (Raised x, l) \<Rightarrow> (Raised x, l)
          | (Returned res, l) \<Rightarrow>
              (Returned (rs0 @ [\<lparr>fr_file_path = fst entry, fr_success = r_success res,
                                 fr_error = r_error res\<rparr>]), l))"
        using r inner l by (intro Cons.IH) simp
      then show ?thesis
        using a Returned rs by (auto split: prod.splits outcome.splits)
    qed
  qed
qed

text \<open>
  Claim C5, as amended. When every line after the last \<open>+++ b/\<close> header is a hunk line
  (added, context, removed or hunk header), so that no unrecognised line stands anywhere
  between that header and the end of the input, the path of that section is mapped to
  \<open>None\<close>, whatever lines were added, and this is the path's only entry. When the loop of
  \<open>apply_patch\<close> comes to that entry, after whatever entries it has handled, the entry is
  handed to \<open>_delete_file\<close>: what is recorded for the path is the outcome of
  \<open>_delete_file\<close>, which sends reads and a \<open>DELETE\<close> and never a \<open>PUT\<close>.
\<close>

theorem unterminated_hunk_is_deletion:
  assumes "p \<noteq> []"
    and "split_nl text = pre @ [''--- a/'' @ p, ''+++ b/'' @ q] @ body"
    and "\<forall>l\<in>set body. hunk_line l"
    and "apply_files e log repo b msg before = (Returned rs, log1)"
  shows "map_of (parse_patch text) p = Some None
         \<and> distinct (map fst (parse_patch text))
         \<and> (p, None) \<in> set (parse_patch text)
         \<and> apply_files e log repo b msg (before @ [(p, None)]) =
             (Returned (rs @ [\<lparr>fr_file_path = p,
                                fr_success = r_success (fst (delete_file e log1 repo p msg b)),
                                fr_error = r_error (fst (delete_file e log1 repo p msg b))\<rparr>]),
              snd (delete_file e log1 repo p msg b))
         \<and> extends_by (by_method [GET, DELETE]) log1 (snd (delete_file e log1 repo p msg b))"
proof -
  have m: "map_of (parse_patch text) p = Some None"
    unfolding parse_patch_def assms(2) parse_lines_append
    by (rule open_hunk_maps_to_None[OF assms(1,3)])
  have a: "apply_file e log1 repo b msg (p, None) =
             (Returned (fst (delete_file e log1 repo p msg b)),
              snd (delete_file e log1 repo p msg b))"
    by (simp add: apply_file_def split: prod.splits)
  have s: "apply_files e log repo b msg (before @ [(p, None)]) =
             (Returned (rs @ [\<lparr>fr_file_path = p,
                                fr_success = r_success (fst (delete_file e log1 repo p msg b)),
                                fr_error = r_error (fst (delete_file e log1 repo p msg b))\<rparr>]),
              snd (delete_file e log1 repo p msg b))"
    using apply_files_snoc[OF assms(4), of "(p, None)"] a by simp
  have d: "extends_by (by_method [GET, DELETE]) log1 (snd (delete_file e log1 repo p msg b))"
    by (rule delete_file_methods[of e log1 repo p msg b "fst (delete_file e log1 repo p msg b)"]) simp
  show ?thesis using m map_of_SomeD[OF m] s d distinct_parse_patch by simp
qed

theorem unterminated_hunk_is_deletion_witness:
  "map_of (parse_patch ex_open_patch) ''f.txt'' = Some None
   \<and> distinct (map fst (parse_patch ex_open_patch))
   \<and> (''f.txt'', None) \<in> set (parse_patch ex_open_patch)
   \<and> apply_files missing_env [] ''octo/repo'' ''fix'' ''msg'' ([] @ [(''f.txt'', None)]) =
       (Returned ([] @ [\<lparr>fr_file_path = ''f.txt'',
           fr_success = r_success (fst (delete_file missing_env [] ''octo/repo'' ''f.txt'' ''msg'' ''fix'')),
           fr_error = r_error (fst (delete_file missing_env [] ''octo/repo'' ''f.txt'' ''msg'' ''fix''))\<rparr>]),
        snd (delete_file missing_env [] ''octo/repo'' ''f.txt'' ''msg'' ''fix''))
   \<and> extends_by (by_method [GET, DELETE]) []
        (snd (delete_file missing_env [] ''octo/repo'' ''f.txt'' ''msg'' ''fix''))"
proof -
  have p: "''f.txt'' \<noteq> []" by simp
  have s: "split_nl ex_open_patch =
             [] @ [''--- a/'' @ ''f.txt'', ''+++ b/'' @ ''f.txt''] @
             [''@@ -1 +1,2 @@'', '' keep'', ''+added'']"
    by code_simp
  have h: "\<forall>l\<in>set [''@@ -1 +1,2 @@'', '' keep'', ''+added'']. hunk_line l"
    by code_simp
  have f: "apply_files missing_env [] ''octo/repo'' ''fix'' ''msg'' [] = (Returned [], [])"
    by simp
  show ?thesis
    by (rule unterminated_hunk_is_deletion [OF p s h f])
qed

text \<open>
  Claim C5 as it is worded fails. In this diff no unrecognised line follows the last added
  line, and the input ends inside the hunk; but an empty line stands between the two added
  lines. At the empty line the parser assigns the content gathered so far, so the path is
  mapped to \<open>a\<close>, and the file is created, not deleted.
\<close>

theorem hunk_with_empty_line_is_created_counterexample:
  "split_nl ex_blank_patch =
     [''--- a/f.txt'', ''+++ b/f.txt'', ''@@ -1 +1,2 @@'', ''+a'', [], ''+b'']
   \<and> parse_patch ex_blank_patch = [(''f.txt'', Some ''a'')]
   \<and> apply_patch missing_env [] ''octo/repo'' ''fix'' (PyStr ex_blank_patch) ''msg'' =
     (\<lparr>p_success = True, p_error = None, p_files_processed = Some 1,
        p_files_successful = Some 1,
        p_results = Some [\<lparr>fr_file_path = ''f.txt'', fr_success = True, fr_error = None\<rparr>]\<rparr>,
      [\<lparr>rq_method = GET,
        rq_url = ''https://api.github.com/repos/octo/repo/contents/f.txt'',
        rq_params = [(''ref'', ''fix'')], rq_json = None\<rparr>,
       \<lparr>rq_method = PUT,
        rq_url = ''https://api.github.com/repos/octo/repo/contents/f.txt'',
        rq_params = [],
        rq_json = Some [(''message'', Some ''msg''), (''content'', Some ''a''),
                        (''branch'', Some ''fix'')]\<rparr>])"
  by code_simp

section \<open>A hunk closed by an unrecognised line\<close>

lemma parse_line_hunk_line_content:
  assumes "in_hunk st" and "current_file st = Some p" and "p \<noteq> []" and "hunk_line l"
  shows "parse_line st l = st\<lparr>current_content := current_content st @ kept_lines [l]\<rparr>"
proof -
  have h: "\<not> startswith l ''--- a/''" "\<not> startswith l ''+++ b/''"
    using hunk_line_not_header[OF assms(4)] by simp_all
  have k: "added_line l \<or> context_line l \<or> removed_line l \<or> hunk_header l"
    using assms(4) by (simp add: hunk_line_def)
  show ?thesis
    using k by (auto simp add: parse_line_in_hunk[OF h assms(1,2,3)] kept_lines_def)
qed

lemma parse_lines_hunk_body_content:
  "in_hunk st \<Longrightarrow> current_file st = Some p \<Longrightarrow> p \<noteq> [] \<Longrightarrow> \<forall>l\<in>set body. hunk_line l \<Longrightarrow>
   parse_lines st body = st\<lparr>current_content := current_content st @ kept_lines body\<rparr>"
proof (induction body arbitrary: st)
  case Nil
  then show ?case by (simp add: kept_lines_def)
next
  case (Cons l body)
  let ?s = "st\<lparr>current_content := current_content st @ kept_lines [l]\<rparr>"
  have s: "parse_line st l = ?s"
    using Cons.prems by (intro parse_line_hunk_line_content) simp_all
  have "parse_lines ?s body = ?s\<lparr>current_content := current_content ?s @ kept_lines body\<rparr>"
    using Cons.prems by (intro Cons.IH) simp_all
  then show ?case using s by (simp add: kept_lines_def)
qed

text \<open>
  A single section whose hunk is followed by one unrecognised line, the last of the input
  (the empty line that a final line break leaves, say): the path is mapped to the kept
  lines joined by line breaks.
\<close>

lemma closed_hunk_parsed:
  assumes "p \<noteq> []"
    and "split_nl text = [''--- a/'' @ p, ''+++ b/'' @ q] @ body @ [closing]"
    and "\<forall>l\<in>set body. hunk_line l"
    and "\<not> hunk_line closing" and "\<not> old_file_header closing" and "\<not> new_file_header closing"
    and "kept_lines body \<noteq> []"
  shows "parse_patch text = [(p, Some (join_nl (kept_lines body)))]"
proof -
  let ?h = "init_pstate\<lparr>files := dict_set (files init_pstate) p None, current_file := Some p,
                 current_content := [], in_hunk := True\<rparr>"
  let ?b = "?h\<lparr>current_content := current_content ?h @ kept_lines body\<rparr>"
  have b: "parse_lines ?h body = ?b"
    using assms(1,3) by (intro parse_lines_hunk_body_content[where p = p]) simp_all
  have c: "\<not> startswith closing ''--- a/''" "\<not> startswith closing ''+++ b/''"
    using assms(5,6) by (simp_all add: old_file_header_def new_file_header_def)
  have n: "\<not> (added_line closing \<or> context_line closing)"
          "\<not> (removed_line closing \<or> hunk_header closing)"
    using assms(4,5) by (auto simp: hunk_line_def)
  have "parse_line ?b closing =
          ?b\<lparr>files := dict_set (files ?b) p (Some (join_nl (current_content ?b)))\<rparr>"
    using n assms(1,7) by (simp add: parse_line_in_hunk[OF c, where cf = p])
  then have "files (parse_line ?b closing) = [(p, Some (join_nl (kept_lines body)))]"
    by (simp add: init_pstate_def)
  then show ?thesis
    using assms(1) b
    by (simp add: parse_patch_def assms(2) parse_lines_append parse_section_head[simplified])
qed

text \<open>
  An entry with content, for a path whose read fails: one read, then one write that
  carries the content and no \<open>sha\<close>.
\<close>

lemma new_file_is_created:
  assumes "b \<noteq> []"
    and "\<not> r_success (fst (make_request e log GET
            (api_base @ ''/repos/'' @ repo @ ''/contents/'' @ p) [(''ref'', b)] None))"
  shows "snd (apply_files e log repo b msg [(p, Some c)]) =
           log @ [\<lparr>rq_method = GET, rq_url = api_base @ ''/repos/'' @ repo @ ''/contents/'' @ p,
                    rq_params = [(''ref'', b)], rq_json = None\<rparr>,
                  \<lparr>rq_method = PUT, rq_url = api_base @ ''/repos/'' @ repo @ ''/contents/'' @ p,
                    rq_params = [],
                    rq_json = Some [(''message'', Some msg),
                                    (''content'', Some (b64encode_utf8 e c)),
                                    (''branch'', Some b)]\<rparr>]"
proof -
  obtain res log1 where g: "make_request e log GET
            (api_base @ ''/repos/'' @ repo @ ''/contents/'' @ p) [(''ref'', b)] None = (res, log1)"
    by (cases "make_request e log GET
            (api_base @ ''/repos/'' @ repo @ ''/contents/'' @ p) [(''ref'', b)] None")
  have l1: "log1 = log @ [\<lparr>rq_method = GET, rq_url = api_base @ ''/repos/'' @ repo @ ''/contents/'' @ p,
                    rq_params = [(''ref'', b)], rq_json = None\<rparr>]"
    using g by (rule make_request_sends)
  have f: "\<not> r_success res" using assms(2) g by simp
  have gf: "get_file_content e log repo p (Some b) = (Returned res, log1)"
    using assms(1) g f by (simp add: get_file_content_def)
  obtain res2 log2 where w: "make_request e log1 PUT
            (api_base @ ''/repos/'' @ repo @ ''/contents/'' @ p) []
            (Some [(''message'', Some msg), (''content'', Some (b64encode_utf8 e c)),
                   (''branch'', Some b)]) = (res2, log2)"
    by (cases "make_request e log1 PUT
            (api_base @ ''/repos/'' @ repo @ ''/contents/'' @ p) []
            (Some [(''message'', Some msg), (''content'', Some (b64encode_utf8 e c)),
                   (''branch'', Some b)])")
  have l2: "log2 = log1 @ [\<lparr>rq_method = PUT, rq_url = api_base @ ''/repos/'' @ repo @ ''/contents/'' @ p,
                    rq_params = [],
                    rq_json = Some [(''message'', Some msg),
                                    (''content'', Some (b64encode_utf8 e c)),
                                    (''branch'', Some b)]\<rparr>]"
    using w by (rule make_request_sends)
  have "snd (create_file e log1 repo p c msg b) = log2"
    using w by (auto simp: create_file_def split: prod.splits outcome.splits dest!: written_log)
  then obtain x where cf: "create_file e log1 repo p c msg b = (x, log2)"
    by (cases "create_file e log1 repo p c msg b") auto
  have "snd (apply_files e log repo b msg [(p, Some c)]) = log2"
    using gf f cf by (simp add: apply_file_def)
  then show ?thesis using l1 l2 by simp
qed

section \<open>A write that the provider limits\<close>

lemma rate_limit_result_failed [simp]: "\<not> r_success (rate_limit_result resp)"
  by (simp add: rate_limit_result_def empty_result_def)

lemma rate_limit_result_error [simp]:
  "r_error (rate_limit_result resp) = Some ''GitHub API rate limit exceeded''"
  by (simp add: rate_limit_result_def empty_result_def)

lemma make_request_rate_limited:
  "make_request e log m u ps js = (res, log') \<Longrightarrow> rate_limited (respond e log') \<Longrightarrow>
   res = rate_limit_result (respond e log')"
  by (auto simp: make_request_def Let_def rate_limited_def rate_limit_result_def
           split: http_response.splits if_splits)

lemma written_failed: "\<not> r_success res \<Longrightarrow> written (res, l) = (Returned res, l)"
  by (simp add: written_def)

lemma put_with_sha_shape:
  assumes "put_with_sha e log repo path c msg b sha = (x, log')"
  shows "\<exists>w. log' = log @ [w] \<and> is_file_write w
             \<and> (rate_limited (respond e log') \<longrightarrow> x = Returned (rate_limit_result (respond e log')))"
proof -
  obtain res l where m: "make_request e log PUT
        (api_base @ ''/repos/'' @ repo @ ''/contents/'' @ path) []
        (Some [(''message'', Some msg), (''content'', Some (b64encode_utf8 e c)),
               (''sha'', sha), (''branch'', Some b)]) = (res, l)"
    by (cases "make_request e log PUT
        (api_base @ ''/repos/'' @ repo @ ''/contents/'' @ path) []
        (Some [(''message'', Some msg), (''content'', Some (b64encode_utf8 e c)),
               (''sha'', sha), (''branch'', Some b)])")
  have w: "written (res, l) = (x, log')" using assms m by (simp add: put_with_sha_def)
  have l: "log' = l" using w by (rule written_log)
  have s: "l = log @ [\<lparr>rq_method = PUT,
        rq_url = api_base @ ''/repos/'' @ repo @ ''/contents/'' @ path, rq_params = [],
        rq_json = Some [(''message'', Some msg), (''content'', Some (b64encode_utf8 e c)),
               (''sha'', sha), (''branch'', Some b)]\<rparr>]"
    using m by (rule make_request_sends)
  have r: "rate_limited (respond e log') \<longrightarrow> x = Returned (rate_limit_result (respond e log'))"
  proof
    assume a: "rate_limited (respond e log')"
    then have "res = rate_limit_result (respond e log')"
      using m l by (auto dest: make_request_rate_limited)
    then show "x = Returned (rate_limit_result (respond e log'))"
      using w by (simp add: written_failed)
  qed
  show ?thesis using l s r by (simp add: is_file_write_def)
qed

lemma create_file_shape:
  assumes "create_file e log repo path c msg b = (res, log')"
  shows "\<exists>w. log' = log @ [w] \<and> is_file_write w
             \<and> (rate_limited (respond e log') \<longrightarrow> res = rate_limit_result (respond e log'))"
proof -
  obtain r0 l where m: "make_request e log PUT
        (api_base @ ''/repos/'' @ repo @ ''/contents/'' @ path) []
        (Some [(''message'', Some msg), (''content'', Some (b64encode_utf8 e c)),
               (''branch'', Some b)]) = (r0, l)"
    by (cases "make_request e log PUT
        (api_base @ ''/repos/'' @ repo @ ''/contents/'' @ path) []
        (Some [(''message'', Some msg), (''content'', Some (b64encode_utf8 e c)),
               (''branch'', Some b)])")
  obtain y l2 where w: "written (r0, l) = (y, l2)" by (cases "written (r0, l)")
  have l2: "l2 = l" using w by (rule written_log)
  have c: "(case y of Raised x \<Rightarrow> (failure (''File creation failed: '' @ x), l)
                   | Returned r \<Rightarrow> (r, l)) = (res, log')"
    using assms m w l2 by (simp add: create_file_def)
  have l: "log' = l" using c by (cases y) auto
  have s: "l = log @ [\<lparr>rq_method = PUT,
        rq_url = api_base @ ''/repos/'' @ repo @ ''/contents/'' @ path, rq_params = [],
        rq_json = Some [(''message'', Some msg), (''content'', Some (b64encode_utf8 e c)),
               (''branch'', Some b)]\<rparr>]"
    using m by (rule make_request_sends)
  have r: "rate_limited (respond e log') \<longrightarrow> res = rate_limit_result (respond e log')"
  proof
    assume a: "rate_limited (respond e log')"
    then have r0: "r0 = rate_limit_result (respond e log')"
      using m l by (auto dest: make_request_rate_limited)
    then have "y = Returned r0" using w by (simp add: written_failed)
    then show "res = rate_limit_result (respond e log')" using c r0 by simp
  qed
  show ?thesis using l s r by (simp add: is_file_write_def)
qed

lemma update_file_shape:
  assumes "update_file e log repo path c msg b sha = (res, log')"
  shows "extends_by is_read log log'
       \<or> (\<exists>reads w. log' = log @ reads @ [w] \<and> list_all is_read reads \<and> is_file_write w
             \<and> (rate_limited (respond e log') \<longrightarrow> res = rate_limit_result (respond e log')))"
proof -
  obtain y l where t: "update_file_try e log repo path c msg b sha = (y, l)"
    by (cases "update_file_try e log repo path c msg b sha")
  have u: "(case y of Raised x \<Rightarrow> (failure (''File update failed: '' @ x), l)
                   | Returned r \<Rightarrow> (r, l)) = (res, log')"
    using assms t by (simp add: update_file_def)
  have l: "log' = l" using u by (cases y) auto
  have put: "\<And>log1 s. put_with_sha e log1 repo path c msg b s = (y, l) \<Longrightarrow>
      \<exists>w. log' = log1 @ [w] \<and> is_file_write w
           \<and> (rate_limited (respond e log') \<longrightarrow> res = rate_limit_result (respond e log'))"
  proof -
    fix log1 s
    assume p: "put_with_sha e log1 repo path c msg b s = (y, l)"
    from put_with_sha_shape[OF p] obtain w where w: "l = log1 @ [w]" "is_file_write w"
      "rate_limited (respond e l) \<longrightarrow> y = Returned (rate_limit_result (respond e l))"
      by blast
    have "rate_limited (respond e log') \<longrightarrow> res = rate_limit_result (respond e log')"
      using w(3) u l by auto
    then show "\<exists>w. log' = log1 @ [w] \<and> is_file_write w
           \<and> (rate_limited (respond e log') \<longrightarrow> res = rate_limit_result (respond e log'))"
      using w(1,2) l by blast
  qed
  show ?thesis
  proof (cases "truthy sha")
    case True
    then have "put_with_sha e log repo path c msg b sha = (y, l)"
      using t by (simp add: update_file_try_def)
    from put[OF this] obtain w where w: "log' = log @ [] @ [w]" "is_file_write w"
      "rate_limited (respond e log') \<longrightarrow> res = rate_limit_result (respond e log')"
      by auto
    have "list_all is_read []" by simp
    then show ?thesis using w by blast
  next
    case False
    obtain g log1 where g: "get_file_content e log repo path (Some b) = (g, log1)"
      by (cases "get_file_content e log repo path (Some b)")
    from get_file_content_reads[OF g] obtain reads where
      reads: "log1 = log @ reads" "list_all is_read reads"
      by (elim extends_byE)
    show ?thesis
    proof (cases g)
      case (Raised m)
      then have "l = log1" using t g False by (simp add: update_file_try_def)
      then show ?thesis using l reads by simp
    next
      case (Returned file_info)
      show ?thesis
      proof (cases "r_success file_info")
        case False
        then have "l = log1" using t g \<open>\<not> truthy sha\<close> Returned by (simp add: update_file_try_def)
        then show ?thesis using l reads by simp
      next
        case True
        then have "put_with_sha e log1 repo path c msg b (r_sha file_info) = (y, l)"
          using t g \<open>\<not> truthy sha\<close> Returned by (simp add: update_file_try_def)
        from put[OF this] obtain w where "log' = log1 @ [w]" "is_file_write w"
          "rate_limited (respond e log') \<longrightarrow> res = rate_limit_result (respond e log')"
          by auto
        then show ?thesis using reads by auto
      qed
    qed
  qed
qed

lemma delete_file_shape:
  assumes "delete_file e log repo path msg b = (res, log')"
  shows "extends_by is_read log log'
       \<or> (\<exists>reads w. log' = log @ reads @ [w] \<and> list_all is_read reads \<and> is_file_write w
             \<and> (rate_limited (respond e log') \<longrightarrow> res = rate_limit_result (respond e log')))"
proof -
  obtain y l where t: "delete_file_try e log repo path msg b = (y, l)"
    by (cases "delete_file_try e log repo path msg b")
  have u: "(case y of Raised x \<Rightarrow> (failure (''File deletion failed: '' @ x), l)
                   | Returned r \<Rightarrow> (r, l)) = (res, log')"
    using assms t by (simp add: delete_file_def)
  have l: "log' = l" using u by (cases y) auto
  obtain g log1 where g: "get_file_content e log repo path (Some b) = (g, log1)"
    by (cases "get_file_content e log repo path (Some b)")
  from get_file_content_reads[OF g] obtain reads where
    reads: "log1 = log @ reads" "list_all is_read reads"
    by (elim extends_byE)
  show ?thesis
  proof (cases g)
    case (Raised m)
    then have "l = log1" using t g by (simp add: delete_file_try_def)
    then show ?thesis using l reads by simp
  next
    case (Returned file_info)
    show ?thesis
    proof (cases "r_success file_info")
      case False
      then have "l = log1" using t g Returned by (simp add: delete_file_try_def)
      then show ?thesis using l reads by simp
    next
      case True
      obtain r0 l2 where m: "make_request e log1 DELETE
            (api_base @ ''/repos/'' @ repo @ ''/contents/'' @ path) []
            (Some [(''message'', Some msg), (''sha'', r_sha file_info), (''branch'', Some b)])
            = (r0, l2)"
        by (cases "make_request e log1 DELETE
            (api_base @ ''/repos/'' @ repo @ ''/contents/'' @ path) []
            (Some [(''message'', Some msg), (''sha'', r_sha file_info), (''branch'', Some b)])")
      have s: "l2 = log1 @ [\<lparr>rq_method = DELETE,
            rq_url = api_base @ ''/repos/'' @ repo @ ''/contents/'' @ path, rq_params = [],
            rq_json = Some [(''message'', Some msg), (''sha'', r_sha file_info),
                            (''branch'', Some b)]\<rparr>]"
        using m by (rule make_request_sends)
      have d: "(if r_success r0 then
                  (case data_get r0 jf_commit_sha of
                     Raised x \<Rightarrow> (Raised x, l2)
                   | Returned cs \<Rightarrow> (Returned (succeeded\<lparr>r_commit_sha := cs\<rparr>), l2))
                else (Returned r0, l2)) = (y, l)"
        using t g Returned True m by (simp add: delete_file_try_def)
      have ll: "l = l2" using d by (auto split: if_splits outcome.splits)
      have r: "rate_limited (respond e log') \<longrightarrow> res = rate_limit_result (respond e log')"
      proof
        assume a: "rate_limited (respond e log')"
        then have r0: "r0 = rate_limit_result (respond e log')"
          using m l ll by (auto dest: make_request_rate_limited)
        then have "y = Returned r0" using d by simp
        then show "res = rate_limit_result (respond e log')" using u r0 by simp
      qed
      have "log' = log @ reads @ [\<lparr>rq_method = DELETE,
            rq_url = api_base @ ''/repos/'' @ repo @ ''/contents/'' @ path, rq_params = [],
            rq_json = Some [(''message'', Some msg), (''sha'', r_sha file_info),
                            (''branch'', Some b)]\<rparr>]"
        using l ll s reads by simp
      then show ?thesis using reads(2) r by (auto simp: is_file_write_def)
    qed
  qed
qed

lemma apply_file_shape:
  assumes "apply_file e log repo b msg entry = (x, log')"
  shows "extends_by is_read log log'
       \<or> (\<exists>reads w. log' = log @ reads @ [w] \<and> list_all is_read reads \<and> is_file_write w
             \<and> (rate_limited (respond e log') \<longrightarrow>
                   x = Returned (rate_limit_result (respond e log'))))"
proof (cases entry)
  case (Pair path content)
  show ?thesis
  proof (cases content)
    case None
    obtain res l where d: "delete_file e log repo path msg b = (res, l)"
      by (cases "delete_file e log repo path msg b")
    have x: "x = Returned res" "log' = l"
      using assms Pair None d by (simp_all add: apply_file_def)
    show ?thesis using delete_file_shape[OF d] x by auto
  next
    case (Some c)
    obtain g log1 where g: "get_file_content e log repo path (Some b) = (g, log1)"
      by (cases "get_file_content e log repo path (Some b)")
    from get_file_content_reads[OF g] obtain reads where
      reads: "log1 = log @ reads" "list_all is_read reads"
      by (elim extends_byE)
    show ?thesis
    proof (cases g)
      case (Raised m)
      then have "log' = log1" using assms Pair Some g by (simp add: apply_file_def)
      then show ?thesis using reads by simp
    next
      case (Returned file_info)
      show ?thesis
      proof (cases "r_success file_info")
        case True
        obtain res l where u: "update_file e log1 repo path c msg b (r_sha file_info) = (res, l)"
          by (cases "update_file e log1 repo path c msg b (r_sha file_info)")
        have x: "x = Returned res" "log' = l"
          using assms Pair Some g Returned True u by (simp_all add: apply_file_def)
        from update_file_shape[OF u] show ?thesis
        proof
          assume "extends_by is_read log1 l"
          then obtain more where "l = log1 @ more" "list_all is_read more"
            by (elim extends_byE)
          then show ?thesis using x reads by simp
        next
          assume "\<exists>rs w. l = log1 @ rs @ [w] \<and> list_all is_read rs \<and> is_file_write w
             \<and> (rate_limited (respond e l) \<longrightarrow> res = rate_limit_result (respond e l))"
          then obtain rs w where w: "l = log1 @ rs @ [w]" "list_all is_read rs" "is_file_write w"
             "rate_limited (respond e l) \<longrightarrow> res = rate_limit_result (respond e l)"
            by blast
          have "log' = log @ (reads @ rs) @ [w]" using w(1) x reads by simp
          moreover have "list_all is_read (reads @ rs)" using w(2) reads by simp
          moreover have "rate_limited (respond e log') \<longrightarrow>
                   x = Returned (rate_limit_result (respond e log'))"
            using w(4) x by simp
          ultimately show ?thesis using w(3) by blast
        qed
      next
        case False
        obtain res l where c: "create_file e log1 repo path c msg b = (res, l)"
          by (cases "create_file e log1 repo path c msg b")
        have x: "x = Returned res" "log' = l"
          using assms Pair Some g Returned False c by (simp_all add: apply_file_def)
        from create_file_shape[OF c] obtain w where w: "l = log1 @ [w]" "is_file_write w"
            "rate_limited (respond e l) \<longrightarrow> res = rate_limit_result (respond e l)"
          by blast
        have "log' = log @ reads @ [w]" using w(1) x reads by simp
        moreover have "rate_limited (respond e log') \<longrightarrow>
                   x = Returned (rate_limit_result (respond e log'))"
          using w(3) x by simp
        ultimately show ?thesis using w(2) reads(2) by blast
      qed
    qed
  qed
qed

lemma read_is_no_write: "is_read r \<Longrightarrow> \<not> is_file_write r"
  by (simp add: is_read_def is_file_write_def)

text \<open>
  Claim C4, as amended. The client has no retry and no backoff. In every file operation
  of \<open>apply_patch\<close> (one turn of its loop) that sends a write, the write is the only one
  and the last request of the operation, after reads only; and when the provider
  answers that write with its rate-limit response, the operation returns at once the
  failure of \<open>_make_request\<close> (the error \<open>GitHub API rate limit exceeded\<close>, and
  \<open>retry_after\<close> from the \<open>X-RateLimit-Reset\<close> header), which the loop records as the
  entry of that file, marked failed with that error.
\<close>

theorem rate_limited_write_recorded_at_once:
  assumes "apply_file e log repo b msg entry = (x, log')"
    and "list_ex is_file_write (drop (length log) log')"
    and "rate_limited (respond e log')"
  shows "(\<exists>reads w. log' = log @ reads @ [w] \<and> list_all is_read reads \<and> is_file_write w)
       \<and> x = Returned (rate_limit_result (respond e log'))
       \<and> apply_files e log repo b msg (entry # rest) =
           (case apply_files e log' repo b msg rest of
              (Raised y, l) \<Rightarrow> (Raised y, l)
            | (Returned rs, l) \<Rightarrow>
                (Returned (\<lparr>fr_file_path = fst entry, fr_success = False,
                             fr_error = Some ''GitHub API rate limit exceeded''\<rparr> # rs), l))"
proof -
  have no_reads_only: "\<not> extends_by is_read log log'"
  proof
    assume "extends_by is_read log log'"
    then obtain new where "log' = log @ new" "list_all is_read new"
      by (elim extends_byE)
    then show False
      using assms(2) by (auto simp: list_ex_iff list_all_iff dest: read_is_no_write)
  qed
  from apply_file_shape[OF assms(1)] no_reads_only
  obtain reads w where s: "log' = log @ reads @ [w]" "list_all is_read reads" "is_file_write w"
      "rate_limited (respond e log') \<longrightarrow> x = Returned (rate_limit_result (respond e log'))"
    by blast
  have x: "x = Returned (rate_limit_result (respond e log'))" using s(4) assms(3) by simp
  have "apply_files e log repo b msg (entry # rest) =
           (case apply_files e log' repo b msg rest of
              (Raised y, l) \<Rightarrow> (Raised y, l)
            | (Returned rs, l) \<Rightarrow>
                (Returned (\<lparr>fr_file_path = fst entry, fr_success = False,
                             fr_error = Some ''GitHub API rate limit exceeded''\<rparr> # rs), l))"
    using assms(1) x by (auto split: prod.splits outcome.splits)
  then show ?thesis using s(1,2,3) x by blast
qed

theorem rate_limited_write_recorded_at_once_witness:
  "(\<exists>reads w. ex_rl_log = [] @ reads @ [w] \<and> list_all is_read reads \<and> is_file_write w)
   \<and> Returned (empty_result\<lparr>r_error := Some ''GitHub API rate limit exceeded'',
                              r_retry_after := Some ''1700000000''\<rparr>)
       = Returned (rate_limit_result (respond rl_env ex_rl_log))
   \<and> apply_files rl_env [] ''octo/repo'' ''fix'' ''msg'' ((''README.md'', Some ''hello'') # []) =
       (case apply_files rl_env ex_rl_log ''octo/repo'' ''fix'' ''msg'' [] of
          (Raised y, l) \<Rightarrow> (Raised y, l)
        | (Returned rs, l) \<Rightarrow>
            (Returned (\<lparr>fr_file_path = fst (''README.md'', Some ''hello''), fr_success = False,
                         fr_error = Some ''GitHub API rate limit exceeded''\<rparr> # rs), l))"
proof -
  have a: "apply_file rl_env [] ''octo/repo'' ''fix'' ''msg'' (''README.md'', Some ''hello'') =
             (Returned (empty_result\<lparr>r_error := Some ''GitHub API rate limit exceeded'',
                                       r_retry_after := Some ''1700000000''\<rparr>), ex_rl_log)"
    by code_simp
  have w: "list_ex is_file_write (drop (length ([] :: request list)) ex_rl_log)"
    by code_simp
  have r: "rate_limited (respond rl_env ex_rl_log)"
    by code_simp
  show ?thesis
    by (rule rate_limited_write_recorded_at_once [OF a w r])
qed

end
